theory Spec2Isabelle
  imports Complex_Main
begin

section \<open>Data model (types.ts)\<close>

text \<open>
  Strings are lists of 8-bit characters: a character stands for a UTF-16 code unit below 256.
  JavaScript numbers used for audio (frequencies, gains, seconds) are idealised as reals;
  timer delays are whole milliseconds.
\<close>

datatype Severity = Low | Medium | High | Critical | Safe

text \<open>
  The arguments object of a function call of the oracle, read at the four keys the code
  reads. The types of \<open>types.ts\<close> are erased at run time and \<open>analyzeFrame\<close> casts the
  object without a check, so every field may be missing: \<open>None\<close> is \<open>undefined\<close>. For the
  severity, \<open>None\<close> also stands for a string that is none of the five names: the code
  compares the severity with the five names only, so all such values behave alike. Values of
  other JSON types are not modelled.
\<close>

record ToolCallArgs =
  severity :: "Severity option"
  message :: "string option"
  location :: "string option"
  reasoning_steps :: "string option"

text \<open>
  An event of the log. Its severity, message and location are copied from the verdict as
  they are, so they may be missing too; the id, the timestamp and the reasoning are computed.
\<close>

record SafetyEvent =
  ev_id :: string
  ev_timestamp :: nat
  ev_severity :: "Severity option"
  ev_message :: "string option"
  ev_location :: "string option"
  ev_reasoning :: "string list"

section \<open>Normalising the reasoning text (handleFrameCapture)\<close>

text \<open>The character class \<open>\d\<close> of a JavaScript regular expression without the unicode flag.\<close>

definition isDigit :: "char \<Rightarrow> bool" where
  "isDigit c = (c \<in> set ''0123456789'')"

text \<open>
  White space and line terminators removed by \<open>String.prototype.trim\<close>, among the code units
  below 256: TAB, LF, VT, FF, CR, SPACE and NBSP.
\<close>

definition isWhiteSpace :: "char \<Rightarrow> bool" where
  "isWhiteSpace c = (of_char c \<in> {9, 10, 11, 12, 13, 32, 160 :: nat})"

fun skipDigits :: "string \<Rightarrow> string" where
  "skipDigits [] = []"
| "skipDigits (c # cs) = (if isDigit c then skipDigits cs else c # cs)"

text \<open>
  \<open>matchDelim s\<close> matches the regular expression \<open>/\d+\./\<close> at the start of \<open>s\<close> and returns
  what follows the match. The greedy \<open>\d+\<close> takes the whole run of digits; giving digits back
  cannot help, since the character after a shorter run is a digit and not the dot.
\<close>

definition matchDelim :: "string \<Rightarrow> string option" where
  "matchDelim s =
     (case s of
        [] \<Rightarrow> None
      | c # cs \<Rightarrow>
          if isDigit c then
            (case skipDigits cs of
               [] \<Rightarrow> None
             | d # rest \<Rightarrow> if d = CHR ''.'' then Some rest else None)
          else None)"

lemma skipDigits_length: "length (skipDigits cs) \<le> length cs"
  by (induction cs) auto

lemma matchDelim_shorter: "matchDelim s = Some r \<Longrightarrow> length r < length s"
  using skipDigits_length [of "tl s"]
  by (auto simp: matchDelim_def split: list.splits if_splits)

text \<open>
  \<open>String.prototype.split\<close> with the separator \<open>/\d+\./\<close>: the text is scanned from the left,
  \<open>acc\<close> holds the current fragment reversed; at the leftmost match the fragment is emitted
  and scanning resumes after the match. The text after the last match is the final fragment,
  so the empty string splits into one empty fragment.
\<close>

function splitSteps :: "string \<Rightarrow> string \<Rightarrow> string list" where
  "splitSteps acc [] = [rev acc]"
| "splitSteps acc (c # cs) =
     (case matchDelim (c # cs) of
        Some rest \<Rightarrow> rev acc # splitSteps [] rest
      | None \<Rightarrow> splitSteps (c # acc) cs)"
  by pat_completeness auto
termination
  by (relation "measure (\<lambda>(acc, s). length s)") (auto dest: matchDelim_shorter)

definition split_numbered :: "string \<Rightarrow> string list" where
  "split_numbered text = splitSteps [] text"

definition trim :: "string \<Rightarrow> string" where
  "trim s = rev (dropWhile isWhiteSpace (rev (dropWhile isWhiteSpace s)))"

text \<open>
  The \<open>reasoning\<close> field of the new event: the fragments trimmed, the empty ones dropped,
  and the raw text as the only step when none is left.
\<close>

definition reasoning_of :: "string \<Rightarrow> string list" where
  "reasoning_of text =
     (let steps = filter (\<lambda>s. length s > 0) (map trim (split_numbered text))
      in if length steps > 0 then steps else [text])"

text \<open>Whether the delimiter \<open>/\d+\./\<close> matches anywhere in the text.\<close>

fun hasDelim :: "string \<Rightarrow> bool" where
  "hasDelim [] = False"
| "hasDelim (c # cs) = (matchDelim (c # cs) \<noteq> None \<or> hasDelim cs)"

section \<open>Sound generation utilities\<close>

datatype AlertSoundType = Siren | Beep | Pulse

datatype OscillatorType = Sine | Square | Sawtooth

text \<open>
  One scheduled oscillator with its gain envelope: the wave form, the frequency set at the
  start, the times given to \<open>start\<close> and \<open>stop\<close>, and the gain \<open>effectiveVol\<close> the
  envelope is set to.
\<close>

record Tone =
  oscType :: OscillatorType
  frequency :: real
  startTime :: real
  stopTime :: real
  effectiveVol :: real

text \<open>The siren's carrier also has a pitch ramp to \<open>peakFreq\<close> and a modulator at \<open>modRate\<close>.\<close>

record SirenTone = Tone +
  peakFreq :: real
  rampUpAt :: real
  rampDownAt :: real
  modRate :: real

record SirenParams =
  sp_baseFreq :: real
  sp_peakFreq :: real
  sp_modRate :: real
  sp_duration :: real
  sp_volAdjust :: real

text \<open>
  The \<open>switch\<close> of \<open>playSiren\<close>: the variables are initialised to the defaults, the cases
  \<open>critical\<close>, \<open>medium\<close> and \<open>low\<close> overwrite them, and \<open>high\<close> shares the \<open>default\<close>
  branch, which leaves them as they are.
\<close>

definition sirenParams :: "Severity \<Rightarrow> SirenParams" where
  "sirenParams sev =
     (let d = \<lparr>sp_baseFreq = 880, sp_peakFreq = 1200, sp_modRate = 12,
                sp_duration = 0.6, sp_volAdjust = 1.0\<rparr>
      in case sev of
           Critical \<Rightarrow> \<lparr>sp_baseFreq = 1000, sp_peakFreq = 1600, sp_modRate = 20,
                         sp_duration = 0.9, sp_volAdjust = 1.2\<rparr>
         | Medium \<Rightarrow> \<lparr>sp_baseFreq = 440, sp_peakFreq = 600, sp_modRate = 6,
                       sp_duration = 0.5, sp_volAdjust = 0.7\<rparr>
         | Low \<Rightarrow> \<lparr>sp_baseFreq = 220, sp_peakFreq = 300, sp_modRate = 3,
                    sp_duration = 0.4, sp_volAdjust = 0.4\<rparr>
         | _ \<Rightarrow> d)"

definition playSiren :: "real \<Rightarrow> real \<Rightarrow> Severity \<Rightarrow> SirenTone" where
  "playSiren now masterVolume sev =
     (let p = sirenParams sev;
          effVol = 0.3 * masterVolume * sp_volAdjust p
      in \<lparr>oscType = Sawtooth, frequency = sp_baseFreq p,
          startTime = now, stopTime = now + sp_duration p,
          effectiveVol = effVol,
          peakFreq = sp_peakFreq p,
          rampUpAt = now + sp_duration p * 0.2,
          rampDownAt = now + sp_duration p * 0.8,
          modRate = sp_modRate p\<rparr>)"

record BeepParams =
  bp_frequency :: real
  bp_duration :: real
  bp_count :: nat
  bp_interval :: real
  bp_volAdjust :: real

text \<open>
  The \<open>switch\<close> of \<open>playBeep\<close>. Each case assigns only some of the variables; the others
  keep their initial values. Here the \<open>default\<close> branch, shared with \<open>high\<close>, assigns too.
\<close>

definition beepParams :: "Severity \<Rightarrow> BeepParams" where
  "beepParams sev =
     (let d = \<lparr>bp_frequency = 1200, bp_duration = 0.15, bp_count = 1,
                bp_interval = 0.2, bp_volAdjust = 1.0\<rparr>
      in case sev of
           Critical \<Rightarrow> d\<lparr>bp_frequency := 1500, bp_count := 3, bp_interval := 0.12,
                          bp_duration := 0.08, bp_volAdjust := 1.1\<rparr>
         | Medium \<Rightarrow> d\<lparr>bp_frequency := 800, bp_count := 1, bp_duration := 0.2,
                        bp_volAdjust := 0.7\<rparr>
         | Low \<Rightarrow> d\<lparr>bp_frequency := 440, bp_count := 1, bp_duration := 0.15,
                     bp_volAdjust := 0.5\<rparr>
         | _ \<Rightarrow> d\<lparr>bp_frequency := 1200, bp_count := 2, bp_interval := 0.18\<rparr>)"

definition playBeep :: "real \<Rightarrow> real \<Rightarrow> Severity \<Rightarrow> Tone list" where
  "playBeep now masterVolume sev =
     (let p = beepParams sev
      in map (\<lambda>i. let start = now + real i * bp_interval p;
                       effVol = 0.3 * masterVolume * bp_volAdjust p
                   in \<lparr>oscType = Sine, frequency = bp_frequency p,
                       startTime = start, stopTime = start + bp_duration p,
                       effectiveVol = effVol\<rparr>)
             [0 ..< bp_count p])"

record PulseParams =
  pp_frequency :: real
  pp_pulseCount :: nat
  pp_pulseDuration :: real
  pp_interval :: real
  pp_volAdjust :: real

definition pulseParams :: "Severity \<Rightarrow> PulseParams" where
  "pulseParams sev =
     (let d = \<lparr>pp_frequency = 110, pp_pulseCount = 2, pp_pulseDuration = 0.1,
                pp_interval = 0.15, pp_volAdjust = 1.0\<rparr>
      in case sev of
           Critical \<Rightarrow> d\<lparr>pp_frequency := 150, pp_pulseCount := 4, pp_pulseDuration := 0.06,
                          pp_interval := 0.1, pp_volAdjust := 1.2\<rparr>
         | Medium \<Rightarrow> d\<lparr>pp_frequency := 80, pp_pulseCount := 1, pp_pulseDuration := 0.3,
                        pp_volAdjust := 0.8\<rparr>
         | Low \<Rightarrow> d\<lparr>pp_frequency := 55, pp_pulseCount := 1, pp_pulseDuration := 0.4,
                     pp_volAdjust := 0.5\<rparr>
         | _ \<Rightarrow> d)"

definition playPulse :: "real \<Rightarrow> real \<Rightarrow> Severity \<Rightarrow> Tone list" where
  "playPulse now masterVolume sev =
     (let p = pulseParams sev
      in map (\<lambda>i. let start = now + real i * pp_interval p;
                       stop = start + pp_pulseDuration p;
                       effVol = 0.4 * masterVolume * pp_volAdjust p
                   in \<lparr>oscType = Square, frequency = pp_frequency p,
                       startTime = start, stopTime = stop,
                       effectiveVol = effVol\<rparr>)
             [0 ..< pp_pulseCount p])"

text \<open>What one call of a generator schedules on the audio device.\<close>

datatype Scheduled = SirenOut SirenTone | BeepOut "Tone list" | PulseOut "Tone list"

text \<open>
  The gain of a scheduled sound: the value of \<open>effectiveVol\<close> of each of its oscillators.
\<close>

fun gains :: "Scheduled \<Rightarrow> real list" where
  "gains (SirenOut t) = [effectiveVol t]"
| "gains (BeepOut ts) = map effectiveVol ts"
| "gains (PulseOut ts) = map effectiveVol ts"

text \<open>The generator selected by the sound type, as \<open>playAlertSound\<close> dispatches.\<close>

definition generate :: "AlertSoundType \<Rightarrow> real \<Rightarrow> real \<Rightarrow> Severity \<Rightarrow> Scheduled" where
  "generate type now vol sev =
     (case type of
        Siren \<Rightarrow> SirenOut (playSiren now vol sev)
      | Beep \<Rightarrow> BeepOut (playBeep now vol sev)
      | Pulse \<Rightarrow> PulseOut (playPulse now vol sev))"

text \<open>
  The specification's reading of the gain: a constant per generator, the severity's volume
  multiplier of that generator's table, and the number of tones a call schedules.
\<close>

definition baseGain :: "AlertSoundType \<Rightarrow> real" where
  "baseGain type = (case type of Siren \<Rightarrow> 0.3 | Beep \<Rightarrow> 0.3 | Pulse \<Rightarrow> 0.4)"

definition volAdjust :: "AlertSoundType \<Rightarrow> Severity \<Rightarrow> real" where
  "volAdjust type sev =
     (case type of
        Siren \<Rightarrow> sp_volAdjust (sirenParams sev)
      | Beep \<Rightarrow> bp_volAdjust (beepParams sev)
      | Pulse \<Rightarrow> pp_volAdjust (pulseParams sev))"

definition toneCount :: "AlertSoundType \<Rightarrow> Severity \<Rightarrow> nat" where
  "toneCount type sev =
     (case type of
        Siren \<Rightarrow> 1
      | Beep \<Rightarrow> bp_count (beepParams sev)
      | Pulse \<Rightarrow> pp_pulseCount (pulseParams sev))"

section \<open>Application state (App)\<close>

datatype AudioContextState = Suspended | Running

record AudioContext =
  ctxState :: AudioContextState
  currentTime :: real

text \<open>The two callbacks handed to \<open>setTimeout\<close>: \<open>setActiveSeverity(null)\<close> and \<open>setLastAlert(null)\<close>.\<close>

datatype TimerCallback = ClearFlash | ClearBanner

text \<open>
  The React state and refs of \<open>App\<close>, together with the part of the environment the
  handlers act on: the timer clock in milliseconds, the pending timers in the order they
  were set (due time and callback), the frames handed to the oracle, what the generators
  scheduled on the audio device, and whether the platform grants an audio device.
\<close>

record AppState =
  isMonitoring :: bool
  isAnalyzing :: bool
  events :: "SafetyEvent list"
  lastAlert :: "SafetyEvent option"
  activeSeverity :: "Severity option"
  isMuted :: bool
  alertSound :: AlertSoundType
  volume :: real
  audioCtx :: "AudioContext option"
  clock :: nat
  timers :: "(nat \<times> TimerCallback) list"
  oracleCalls :: "string list"
  audioOut :: "Scheduled list"
  audioGranted :: bool

definition initialState :: AppState where
  "initialState =
     \<lparr>isMonitoring = False, isAnalyzing = False, events = [], lastAlert = None,
      activeSeverity = None, isMuted = False, alertSound = Siren, volume = 0.5,
      audioCtx = None, clock = 0, timers = [], oracleCalls = [], audioOut = [],
      audioGranted = True\<rparr>"

subsection \<open>Timers\<close>

definition setTimeout :: "TimerCallback \<Rightarrow> nat \<Rightarrow> AppState \<Rightarrow> AppState" where
  "setTimeout cb delay s = s\<lparr>timers := timers s @ [(clock s + delay, cb)]\<rparr>"

fun runCallback :: "TimerCallback \<Rightarrow> AppState \<Rightarrow> AppState" where
  "runCallback ClearFlash s = s\<lparr>activeSeverity := None\<rparr>"
| "runCallback ClearBanner s = s\<lparr>lastAlert := None\<rparr>"

text \<open>
  \<open>elapse dt\<close> lets \<open>dt\<close> milliseconds pass with no other event: the timers that fall due
  fire in the order of their due times (timers due together in the order they were set),
  the others stay pending, and a running audio device's clock advances.
\<close>

definition elapse :: "nat \<Rightarrow> AppState \<Rightarrow> AppState" where
  "elapse dt s =
     (let t = clock s + dt;
          due = filter (\<lambda>(d, cb). d \<le> t) (timers s);
          pending = filter (\<lambda>(d, cb). \<not> d \<le> t) (timers s);
          s' = fold runCallback (map snd (sort_key fst due)) s
      in s'\<lparr>clock := t, timers := pending,
            audioCtx := map_option
              (\<lambda>c. if ctxState c = Running
                    then c\<lparr>currentTime := currentTime c + real dt / 1000\<rparr> else c)
              (audioCtx s')\<rparr>)"

subsection \<open>Audio engine\<close>

datatype error = AudioInitFailed

text \<open>
  \<open>initAudio\<close> creates the audio context on first use and resumes a suspended one; a
  running one is returned as it is. Where the platform grants no device, constructing or
  resuming throws.
\<close>

definition initAudio :: "AppState \<Rightarrow> error + (AudioContext \<times> AppState)" where
  "initAudio s =
     (case audioCtx s of
        None \<Rightarrow>
          if audioGranted s then
            let ctx = \<lparr>ctxState = Running, currentTime = 0\<rparr>
            in Inr (ctx, s\<lparr>audioCtx := Some ctx\<rparr>)
          else Inl AudioInitFailed
      | Some c \<Rightarrow>
          if ctxState c = Suspended then
            if audioGranted s then
              let ctx = c\<lparr>ctxState := Running\<rparr>
              in Inr (ctx, s\<lparr>audioCtx := Some ctx\<rparr>)
            else Inl AudioInitFailed
          else Inr (c, s))"

text \<open>
  \<open>playAlertSound force severity\<close>. The two guards return before anything is touched. A
  failing \<open>initAudio\<close> rejects the promise, which no caller awaits: nothing is scheduled.
\<close>

definition playAlertSound :: "bool \<Rightarrow> Severity \<Rightarrow> AppState \<Rightarrow> AppState" where
  "playAlertSound force sev s =
     (if \<not> force \<and> isMuted s then s
      else if sev = Safe \<and> \<not> force then s
      else
        case (case audioCtx s of
                None \<Rightarrow> initAudio s
              | Some c \<Rightarrow> Inr (c, s)) of
          Inl e \<Rightarrow> s
        | Inr (ctx, s1) \<Rightarrow>
            let now = currentTime ctx;
                type = alertSound s1;
                vol = volume s1
            in if type = Siren then
                 s1\<lparr>audioOut := audioOut s1 @ [SirenOut (playSiren now vol sev)]\<rparr>
               else if type = Beep then
                 s1\<lparr>audioOut := audioOut s1 @ [BeepOut (playBeep now vol sev)]\<rparr>
               else if type = Pulse then
                 s1\<lparr>audioOut := audioOut s1 @ [PulseOut (playPulse now vol sev)]\<rparr>
               else s1)"

text \<open>
  \<open>toggleMonitoring\<close>: when monitoring starts, the audio device is initialised and a
  confirmation chirp (a \<open>low\<close> beep) is played, a failure being caught and logged. Then the
  flag is flipped. Nothing else happens when monitoring stops.
\<close>

definition toggleMonitoring :: "AppState \<Rightarrow> AppState" where
  "toggleMonitoring s =
     (let s1 = (if \<not> isMonitoring s then
                  (case initAudio s of
                     Inl e \<Rightarrow> s
                   | Inr (ctx, s') \<Rightarrow>
                       s'\<lparr>audioOut := audioOut s' @
                            [BeepOut (playBeep (currentTime ctx) (volume s') Low)]\<rparr>)
                else s)
      in s1\<lparr>isMonitoring := \<not> isMonitoring s1\<rparr>)"

subsection \<open>Alert orchestration\<close>

text \<open>
  The variable \<open>duration\<close> of \<open>triggerAlert\<close>: it starts at 600 and the chain of tests
  on the severity overwrites it; it stays 600 for a severity that is none of the five.
\<close>

definition flashDuration :: "Severity option \<Rightarrow> nat" where
  "flashDuration sev =
     (if sev = Some Critical then 1200
      else if sev = Some High then 900
      else if sev = Some Medium then 700
      else if sev = Some Low then 400
      else if sev = Some Safe then 500
      else 600)"

text \<open>
  \<open>triggerAlert\<close>: the event is appended to the log, the flash is set and its clearing
  timer started, the banner is set and its timer started for \<open>high\<close> and \<open>critical\<close>, and
  the sound is played, not forced, unless the severity is \<open>safe\<close>. No timer is ever
  cancelled: \<open>setTimeout\<close>'s handle is dropped. A missing severity shows no flash, as
  \<open>null\<close> does, and \<open>playAlertSound\<close> replaces it by its default parameter \<open>high\<close>.
\<close>

definition triggerAlert :: "SafetyEvent \<Rightarrow> AppState \<Rightarrow> AppState" where
  "triggerAlert event s =
     (let s1 = s\<lparr>events := events s @ [event]\<rparr>;
          s2 = s1\<lparr>activeSeverity := ev_severity event\<rparr>;
          duration = flashDuration (ev_severity event);
          s3 = setTimeout ClearFlash duration s2;
          s4 = (if ev_severity event = Some High \<or> ev_severity event = Some Critical
                then setTimeout ClearBanner 5000 (s3\<lparr>lastAlert := Some event\<rparr>)
                else s3)
      in if ev_severity event \<noteq> Some Safe
         then playAlertSound False
                (case ev_severity event of None \<Rightarrow> High | Some sev \<Rightarrow> sev) s4
         else s4)"

section \<open>The oracle call (geminiService.ts)\<close>

text \<open>
  A function call in the oracle's response: its name and its arguments object, which may
  be absent.
\<close>

record FunctionCall =
  name :: string
  args :: "ToolCallArgs option"

text \<open>A part of the response content carries a function call or not (a text part).\<close>

record Part =
  functionCall :: "FunctionCall option"

text \<open>A candidate with its \<open>content?.parts\<close>, which may be absent.\<close>

record Candidate =
  parts :: "Part list option"

text \<open>\<open>generateContent\<close> throws (network, authentication) or returns a response.\<close>

datatype OracleOutcome = OracleError | OracleResponse "Candidate list option"

text \<open>What awaiting a promise gives back: a rejection or the value.\<close>

datatype 'a Awaited = Rejected | Fulfilled 'a

definition stripPrefix :: "string \<Rightarrow> string \<Rightarrow> string option" where
  "stripPrefix p s = (if take (length p) s = p then Some (drop (length p) s) else None)"

text \<open>Removing the data URL prefix \<open>/^data:image\/(png|jpeg|jpg);base64,/\<close>.\<close>

definition cleanBase64 :: "string \<Rightarrow> string" where
  "cleanBase64 base64Image =
     (case stripPrefix ''data:image/png;base64,'' base64Image of
        Some r \<Rightarrow> r
      | None \<Rightarrow>
          (case stripPrefix ''data:image/jpeg;base64,'' base64Image of
             Some r \<Rightarrow> r
           | None \<Rightarrow>
               (case stripPrefix ''data:image/jpg;base64,'' base64Image of
                  Some r \<Rightarrow> r
                | None \<Rightarrow> base64Image)))"

text \<open>JavaScript's \<open>a || b\<close> on a string that may be missing: the empty string is falsy too.\<close>

definition orElse :: "string option \<Rightarrow> string \<Rightarrow> string" where
  "orElse a b = (case a of None \<Rightarrow> b | Some v \<Rightarrow> if v = [] then b else v)"

text \<open>
  \<open>analyzeFrame\<close>. Its first argument is what \<open>getClient()\<close> gives: \<open>None\<close> when
  constructing the client throws, which happens before the \<open>try\<close> and rejects the promise;
  otherwise the oracle, a function from the image data to the outcome of the request.
  Inside the \<open>try\<close>, \<open>None\<close> is the \<open>null\<close> returned. The arguments of a
  \<open>report_safety_violation\<close> call are returned as they are, unchecked (an absent
  arguments object is \<open>undefined\<close>, which the caller treats like \<open>null\<close>). For a
  \<open>report_safe_status\<close> call, reading \<open>args.location\<close> of an absent arguments object
  throws inside the \<open>try\<close>, and the \<open>catch\<close> returns \<open>null\<close>.
\<close>

definition analyzeFrame ::
    "(string \<Rightarrow> OracleOutcome) option \<Rightarrow> string \<Rightarrow> ToolCallArgs option Awaited" where
  "analyzeFrame client base64Image =
     (case client of
        None \<Rightarrow> Rejected
      | Some oracle \<Rightarrow>
          Fulfilled
            (case oracle (cleanBase64 base64Image) of
               OracleError \<Rightarrow> None
             | OracleResponse candidates \<Rightarrow>
                 (case candidates of
                    None \<Rightarrow> None
                  | Some [] \<Rightarrow> None
                  | Some (candidate # _) \<Rightarrow>
                      (case map_option (List.map_filter functionCall) (parts candidate) of
                         Some (call # _) \<Rightarrow>
                           if name call = ''report_safety_violation'' then args call
                           else if name call = ''report_safe_status'' then
                             (case args call of
                                None \<Rightarrow> None
                              | Some a \<Rightarrow>
                                  Some \<lparr>severity = Some Safe,
                                        message = Some ''Routine Check: All Clear'',
                                        location = Some (orElse (location a) ''Zone 1''),
                                        reasoning_steps =
                                          Some (orElse (reasoning_steps a)
                                                  ''No hazards detected.'')\<rparr>)
                           else None
                       | _ \<Rightarrow> None))))"

section \<open>The analysis gate (handleFrameCapture)\<close>

text \<open>
  \<open>handleFrameCapture\<close> up to its \<open>await\<close>: the guard, the flag, and the oracle call, which is
  recorded in \<open>oracleCalls\<close>.
\<close>

definition handleFrameCapture_submit :: "string \<Rightarrow> AppState \<Rightarrow> AppState" where
  "handleFrameCapture_submit base64 s =
     (if isAnalyzing s then s
      else s\<lparr>isAnalyzing := True, oracleCalls := oracleCalls s @ [base64]\<rparr>)"

text \<open>
  \<open>handleFrameCapture\<close> after its \<open>await\<close>: the \<open>try\<close> block with the result, the \<open>catch\<close>
  and the \<open>finally\<close>. The \<open>catch\<close> takes a rejection of the awaited promise and the
  \<open>TypeError\<close> of \<open>result.reasoning_steps.split\<close> when the result has no reasoning string;
  in both cases no event is built. \<open>uuid\<close> is what \<open>crypto.randomUUID()\<close> returns; the
  timestamp is the clock.
\<close>

definition handleFrameCapture_resume ::
    "ToolCallArgs option Awaited \<Rightarrow> string \<Rightarrow> AppState \<Rightarrow> AppState" where
  "handleFrameCapture_resume outcome uuid s =
     (let s1 = (case outcome of
                  Rejected \<Rightarrow> s
                | Fulfilled None \<Rightarrow> s
                | Fulfilled (Some result) \<Rightarrow>
                    (case reasoning_steps result of
                       None \<Rightarrow> s
                     | Some text \<Rightarrow>
                         let newEvent =
                               \<lparr>ev_id = uuid,
                                ev_timestamp = clock s,
                                ev_severity = severity result,
                                ev_message = message result,
                                ev_location = location result,
                                ev_reasoning = reasoning_of text\<rparr>
                         in triggerAlert newEvent s))
      in s1\<lparr>isAnalyzing := False\<rparr>)"

text \<open>A whole analysis with nothing happening in between.\<close>

definition handleFrameCapture ::
    "(string \<Rightarrow> OracleOutcome) option \<Rightarrow> string \<Rightarrow> string \<Rightarrow> AppState \<Rightarrow> AppState" where
  "handleFrameCapture client uuid base64 s =
     (if isAnalyzing s then s
      else handleFrameCapture_resume (analyzeFrame client base64) uuid
             (handleFrameCapture_submit base64 s))"

section \<open>The capture loop (CameraFeed) and the runs of the program\<close>

text \<open>
  The state of \<open>CameraFeed\<close>: whether a video source is available, and the due time of
  the next tick of its capture interval, \<open>None\<close> when no interval is registered.
\<close>

record CameraFeed =
  hasPermission :: bool
  intervalDue :: "nat option"

record Session =
  app :: AppState
  feed :: CameraFeed

text \<open>The \<open>intervalMs\<close> that \<open>App\<close> passes to \<open>CameraFeed\<close>.\<close>

definition intervalMs :: nat where
  "intervalMs = 5000"

text \<open>
  The capture loop effect of \<open>CameraFeed\<close>. It runs again whenever \<open>isActive\<close>,
  \<open>hasPermission\<close> or \<open>onFrameCapture\<close> changes; \<open>onFrameCapture\<close> is
  \<open>handleFrameCapture\<close>, which is built anew whenever \<open>isAnalyzing\<close> changes. Running
  again clears the interval and, when monitoring is on and a source is available, registers
  a new one, whose first tick is \<open>intervalMs\<close> later.
\<close>

definition captureLoop :: "AppState \<Rightarrow> CameraFeed \<Rightarrow> CameraFeed" where
  "captureLoop a f =
     f\<lparr>intervalDue :=
          (if isMonitoring a \<and> hasPermission f then Some (clock a + intervalMs) else None)\<rparr>"

text \<open>
  What can happen to the running program: time passes; the capture interval ticks, with a
  frame when the video has data; the awaited analysis comes back; the user toggles
  monitoring, loads or closes a video file (which switches monitoring off), changes a sound
  setting or asks for a preview; the video source or the audio device becomes available or
  unavailable.
\<close>

datatype Input =
    Elapse nat
  | IntervalTick "string option"
  | AnalysisReturns "ToolCallArgs option Awaited" string
  | ClickMonitoring
  | VideoChanged
  | PermissionChanged bool
  | SetMuted bool
  | SetVolume real
  | SetAlertSound AlertSoundType
  | Preview
  | AudioGrantedChanged bool

text \<open>
  One step of the program. An input that cannot occur in the state is skipped: time does
  not pass beyond the next tick of the capture interval without that tick, the interval
  ticks at its due time only, and an analysis comes back only when one is in flight. A tick
  calls the current \<open>handleFrameCapture\<close>; the interval goes on, and it is registered anew
  at the same moment whenever a handler has changed a dependency of the capture loop.
\<close>

fun step :: "Input \<Rightarrow> Session \<Rightarrow> Session" where
  "step (Elapse dt) \<sigma> =
     (if (case intervalDue (feed \<sigma>) of None \<Rightarrow> True | Some c \<Rightarrow> clock (app \<sigma>) + dt \<le> c)
      then \<sigma>\<lparr>app := elapse dt (app \<sigma>)\<rparr>
      else \<sigma>)"
| "step (IntervalTick frame) \<sigma> =
     (if intervalDue (feed \<sigma>) = Some (clock (app \<sigma>))
      then \<lparr>app = (case frame of
                     None \<Rightarrow> app \<sigma>
                   | Some base64 \<Rightarrow> handleFrameCapture_submit base64 (app \<sigma>)),
            feed = (feed \<sigma>)\<lparr>intervalDue := Some (clock (app \<sigma>) + intervalMs)\<rparr>\<rparr>
      else \<sigma>)"
| "step (AnalysisReturns outcome uuid) \<sigma> =
     (if isAnalyzing (app \<sigma>)
      then (let a = handleFrameCapture_resume outcome uuid (app \<sigma>)
            in \<lparr>app = a, feed = captureLoop a (feed \<sigma>)\<rparr>)
      else \<sigma>)"
| "step ClickMonitoring \<sigma> =
     (let a = toggleMonitoring (app \<sigma>)
      in \<lparr>app = a, feed = captureLoop a (feed \<sigma>)\<rparr>)"
| "step VideoChanged \<sigma> =
     (let a = (app \<sigma>)\<lparr>isMonitoring := False\<rparr>
      in \<lparr>app = a, feed = captureLoop a (feed \<sigma>)\<rparr>)"
| "step (PermissionChanged b) \<sigma> =
     (if b = hasPermission (feed \<sigma>) then \<sigma>
      else \<sigma>\<lparr>feed := captureLoop (app \<sigma>) ((feed \<sigma>)\<lparr>hasPermission := b\<rparr>)\<rparr>)"
| "step (SetMuted b) \<sigma> = \<sigma>\<lparr>app := (app \<sigma>)\<lparr>isMuted := b\<rparr>\<rparr>"
| "step (SetVolume v) \<sigma> = \<sigma>\<lparr>app := (app \<sigma>)\<lparr>volume := v\<rparr>\<rparr>"
| "step (SetAlertSound t) \<sigma> = \<sigma>\<lparr>app := (app \<sigma>)\<lparr>alertSound := t\<rparr>\<rparr>"
| "step Preview \<sigma> = \<sigma>\<lparr>app := playAlertSound True High (app \<sigma>)\<rparr>"
| "step (AudioGrantedChanged b) \<sigma> = \<sigma>\<lparr>app := (app \<sigma>)\<lparr>audioGranted := b\<rparr>\<rparr>"

text \<open>A run: the inputs one after the other.\<close>

fun run :: "Input list \<Rightarrow> Session \<Rightarrow> Session" where
  "run [] \<sigma> = \<sigma>"
| "run (i # inputs) \<sigma> = run inputs (step i \<sigma>)"

definition initialSession :: Session where
  "initialSession =
     \<lparr>app = initialState, feed = \<lparr>hasPermission = False, intervalDue = None\<rparr>\<rparr>"

section \<open>The specification's tables and sample inputs\<close>

text \<open>The documented flash duration per severity, in milliseconds.\<close>

definition documentedFlashMs :: "Severity \<Rightarrow> nat" where
  "documentedFlashMs sev =
     (case sev of Critical \<Rightarrow> 1200 | High \<Rightarrow> 900 | Medium \<Rightarrow> 700 | Low \<Rightarrow> 400 | Safe \<Rightarrow> 500)"

text \<open>The severities that raise the persistent banner.\<close>

definition bannerSeverity :: "Severity \<Rightarrow> bool" where
  "bannerSeverity sev = (sev = High \<or> sev = Critical)"

text \<open>The audio device's clock as \<open>playAlertSound\<close> reads it; a device created by the call starts at 0.\<close>

definition deviceClock :: "AppState \<Rightarrow> real" where
  "deviceClock s = (case audioCtx s of None \<Rightarrow> 0 | Some c \<Rightarrow> currentTime c)"

text \<open>
  The two structured shapes of the tool schema: a violation record with a severity among
  low, medium, high and critical, a message, a location and reasoning steps; a safe status
  record with a location and reasoning steps.
\<close>

definition violationShape :: "FunctionCall \<Rightarrow> bool" where
  "violationShape call =
     (name call = ''report_safety_violation'' \<and>
      (case args call of
         None \<Rightarrow> False
       | Some a \<Rightarrow>
           severity a \<in> {Some Low, Some Medium, Some High, Some Critical}
           \<and> message a \<noteq> None \<and> location a \<noteq> None \<and> reasoning_steps a \<noteq> None))"

definition safeStatusShape :: "FunctionCall \<Rightarrow> bool" where
  "safeStatusShape call =
     (name call = ''report_safe_status'' \<and>
      (case args call of
         None \<Rightarrow> False
       | Some a \<Rightarrow> location a \<noteq> None \<and> reasoning_steps a \<noteq> None))"

text \<open>The first function call of the first candidate, which is the one \<open>analyzeFrame\<close> reads.\<close>

definition firstCall :: "Candidate list option \<Rightarrow> FunctionCall option" where
  "firstCall candidates =
     (case candidates of
        None \<Rightarrow> None
      | Some [] \<Rightarrow> None
      | Some (candidate # _) \<Rightarrow>
          (case parts candidate of
             None \<Rightarrow> None
           | Some ps \<Rightarrow>
               (case List.map_filter functionCall ps of
                  [] \<Rightarrow> None
                | call # _ \<Rightarrow> Some call)))"

text \<open>A response that matches neither structured shape.\<close>

definition malformedVerdict :: "Candidate list option \<Rightarrow> bool" where
  "malformedVerdict candidates =
     (case firstCall candidates of
        None \<Rightarrow> True
      | Some call \<Rightarrow> \<not> violationShape call \<and> \<not> safeStatusShape call)"

text \<open>
  The responses from which the code builds no event: there is no function call, or the
  first one has another name or no arguments object, or it is a violation call without a
  reasoning string.
\<close>

definition unusableVerdict :: "Candidate list option \<Rightarrow> bool" where
  "unusableVerdict candidates =
     (case firstCall candidates of
        None \<Rightarrow> True
      | Some call \<Rightarrow>
          (name call \<noteq> ''report_safety_violation'' \<and> name call \<noteq> ''report_safe_status'')
          \<or> args call = None
          \<or> (name call = ''report_safety_violation''
              \<and> (case args call of None \<Rightarrow> True | Some a \<Rightarrow> reasoning_steps a = None)))"

definition criticalVerdict :: ToolCallArgs where
  "criticalVerdict =
     \<lparr>severity = Some Critical, message = Some ''No harness'', location = Some ''Zone A'',
      reasoning_steps = Some ''1. Worker detected. 2. No harness.''\<rparr>"

definition mediumVerdict :: ToolCallArgs where
  "mediumVerdict =
     \<lparr>severity = Some Medium, message = Some ''No vest'', location = Some ''Zone D'',
      reasoning_steps = Some ''1. Worker near forklift. 2. No vest.''\<rparr>"

definition highVerdict :: ToolCallArgs where
  "highVerdict =
     \<lparr>severity = Some High, message = Some ''No hard hat'', location = Some ''Zone C'',
      reasoning_steps = Some ''1. Worker detected. 2. No hard hat.''\<rparr>"

definition lowVerdict :: ToolCallArgs where
  "lowVerdict =
     \<lparr>severity = Some Low, message = Some ''Loose cable'', location = Some ''Zone B'',
      reasoning_steps = Some ''Cable on floor.''\<rparr>"

text \<open>A violation call whose arguments lack the message and the location.\<close>

definition partialVerdict :: ToolCallArgs where
  "partialVerdict =
     \<lparr>severity = Some High, message = None, location = None,
      reasoning_steps = Some ''1. Worker detected.''\<rparr>"

text \<open>A violation call whose arguments lack the reasoning steps.\<close>

definition unreasonedVerdict :: ToolCallArgs where
  "unreasonedVerdict =
     \<lparr>severity = Some High, message = Some ''No hard hat'', location = Some ''Zone C'',
      reasoning_steps = None\<rparr>"

definition criticalEvent :: SafetyEvent where
  "criticalEvent =
     \<lparr>ev_id = ''e1'', ev_timestamp = 0, ev_severity = Some Critical,
      ev_message = Some ''No harness'', ev_location = Some ''Zone A'',
      ev_reasoning = [''Worker detected.'', ''No harness.'']\<rparr>"

definition lowEvent :: SafetyEvent where
  "lowEvent =
     \<lparr>ev_id = ''e2'', ev_timestamp = 1000, ev_severity = Some Low,
      ev_message = Some ''Loose cable'', ev_location = Some ''Zone B'',
      ev_reasoning = [''Cable on floor.'']\<rparr>"

definition safeEvent :: SafetyEvent where
  "safeEvent =
     \<lparr>ev_id = ''e5'', ev_timestamp = 0, ev_severity = Some Safe,
      ev_message = Some ''Routine Check: All Clear'', ev_location = Some ''Zone 1'',
      ev_reasoning = [''No hazards detected.'']\<rparr>"

definition mutedState :: AppState where
  "mutedState = initialState\<lparr>isMuted := True\<rparr>"

text \<open>Monitoring has been started and a critical event has just arrived.\<close>

definition monitoringWithAlert :: AppState where
  "monitoringWithAlert = triggerAlert criticalEvent (toggleMonitoring initialState)"

definition sampleFrame :: string where
  "sampleFrame = ''data:image/jpeg;base64,AAAA''"

text \<open>The state after a critical event, with a verdict for a second analysis coming back.\<close>

definition afterCriticalEvent :: AppState where
  "afterCriticalEvent = triggerAlert criticalEvent initialState"

text \<open>
  A run of the program: monitoring starts with a camera; the first tick after 5000 ms
  submits a frame, whose analysis returns a critical verdict 800 ms later; the next tick
  comes 5000 ms after that and submits a second frame, whose analysis is in flight for
  300 ms at the end of the run.
\<close>

definition secondAnalysisInFlight :: "Input list" where
  "secondAnalysisInFlight =
     [PermissionChanged True, ClickMonitoring, Elapse 5000, IntervalTick (Some sampleFrame),
      Elapse 800, AnalysisReturns (Fulfilled (Some criticalVerdict)) ''e1'',
      Elapse 5000, IntervalTick (Some sampleFrame), Elapse 300]"

text \<open>A response whose first candidate carries a text part and then the given function call.\<close>

definition responseWith :: "FunctionCall \<Rightarrow> Candidate list option" where
  "responseWith call =
     Some [\<lparr>parts = Some [\<lparr>functionCall = None\<rparr>, \<lparr>functionCall = Some call\<rparr>]\<rparr>]"

definition callOracle :: "FunctionCall \<Rightarrow> string \<Rightarrow> OracleOutcome" where
  "callOracle call data = OracleResponse (responseWith call)"

definition failingOracle :: "string \<Rightarrow> OracleOutcome" where
  "failingOracle data = OracleError"

definition textOnlyResponse :: "Candidate list option" where
  "textOnlyResponse = Some [\<lparr>parts = Some [\<lparr>functionCall = None\<rparr>]\<rparr>]"

definition textOnlyOracle :: "string \<Rightarrow> OracleOutcome" where
  "textOnlyOracle data = OracleResponse textOnlyResponse"

text \<open>A safe status call with an empty arguments object, and one with no arguments object.\<close>

definition emptyStatusCall :: FunctionCall where
  "emptyStatusCall =
     \<lparr>name = ''report_safe_status'',
      args = Some \<lparr>severity = None, message = None, location = None,
                    reasoning_steps = Some []\<rparr>\<rparr>"

definition bareStatusCall :: FunctionCall where
  "bareStatusCall = \<lparr>name = ''report_safe_status'', args = None\<rparr>"

definition fullStatusCall :: FunctionCall where
  "fullStatusCall =
     \<lparr>name = ''report_safe_status'',
      args = Some \<lparr>severity = None, message = None, location = Some ''Dock 4'',
                    reasoning_steps = None\<rparr>\<rparr>"

definition partialViolationCall :: FunctionCall where
  "partialViolationCall = \<lparr>name = ''report_safety_violation'', args = Some partialVerdict\<rparr>"

definition unreasonedViolationCall :: FunctionCall where
  "unreasonedViolationCall =
     \<lparr>name = ''report_safety_violation'', args = Some unreasonedVerdict\<rparr>"

section \<open>Auxiliary facts\<close>

subsection \<open>Splitting\<close>

lemma splitSteps_no_delim: "\<not> hasDelim s \<Longrightarrow> splitSteps acc s = [rev acc @ s]"
  by (induction s arbitrary: acc) auto

lemma reasoning_of_nonempty: "reasoning_of text \<noteq> []"
  by (simp add: reasoning_of_def Let_def)

lemma reasoning_of_no_delim:
  "\<not> hasDelim text \<Longrightarrow> reasoning_of text = [if trim text = [] then text else trim text]"
  by (simp add: reasoning_of_def split_numbered_def splitSteps_no_delim)

subsection \<open>What playing a sound leaves alone\<close>

lemma playAlertSound_events [simp]: "events (playAlertSound force sev s) = events s"
  by (cases "alertSound s")
     (simp_all add: playAlertSound_def initAudio_def Let_def split: option.splits)

lemma playAlertSound_timers [simp]: "timers (playAlertSound force sev s) = timers s"
  by (cases "alertSound s")
     (simp_all add: playAlertSound_def initAudio_def Let_def split: option.splits)

lemma playAlertSound_clock [simp]: "clock (playAlertSound force sev s) = clock s"
  by (cases "alertSound s")
     (simp_all add: playAlertSound_def initAudio_def Let_def split: option.splits)

lemma playAlertSound_activeSeverity [simp]:
  "activeSeverity (playAlertSound force sev s) = activeSeverity s"
  by (cases "alertSound s")
     (simp_all add: playAlertSound_def initAudio_def Let_def split: option.splits)

lemma playAlertSound_lastAlert [simp]: "lastAlert (playAlertSound force sev s) = lastAlert s"
  by (cases "alertSound s")
     (simp_all add: playAlertSound_def initAudio_def Let_def split: option.splits)

lemma playAlertSound_isAnalyzing [simp]:
  "isAnalyzing (playAlertSound force sev s) = isAnalyzing s"
  by (cases "alertSound s")
     (simp_all add: playAlertSound_def initAudio_def Let_def split: option.splits)

lemma playAlertSound_isMonitoring [simp]:
  "isMonitoring (playAlertSound force sev s) = isMonitoring s"
  by (cases "alertSound s")
     (simp_all add: playAlertSound_def initAudio_def Let_def split: option.splits)

lemma playAlertSound_oracleCalls [simp]:
  "oracleCalls (playAlertSound force sev s) = oracleCalls s"
  by (cases "alertSound s")
     (simp_all add: playAlertSound_def initAudio_def Let_def split: option.splits)

lemma playAlertSound_forced:
  assumes "audioCtx s \<noteq> None \<or> audioGranted s"
  shows "audioOut (playAlertSound True sev s)
           = audioOut s @ [generate (alertSound s) (deviceClock s) (volume s) sev]"
  using assms
  by (cases "alertSound s")
     (auto simp: playAlertSound_def initAudio_def Let_def generate_def deviceClock_def
           split: option.splits)

subsection \<open>The effect of an alert\<close>

lemma triggerAlert_events: "events (triggerAlert ev s) = events s @ [ev]"
  by (simp add: triggerAlert_def setTimeout_def Let_def)

lemma triggerAlert_activeSeverity: "activeSeverity (triggerAlert ev s) = ev_severity ev"
  by (simp add: triggerAlert_def setTimeout_def Let_def)

lemma triggerAlert_clock: "clock (triggerAlert ev s) = clock s"
  by (simp add: triggerAlert_def setTimeout_def Let_def)

lemma triggerAlert_isMonitoring: "isMonitoring (triggerAlert ev s) = isMonitoring s"
  by (simp add: triggerAlert_def setTimeout_def Let_def)

lemma triggerAlert_oracleCalls: "oracleCalls (triggerAlert ev s) = oracleCalls s"
  by (simp add: triggerAlert_def setTimeout_def Let_def)

lemma triggerAlert_timers:
  "timers (triggerAlert ev s) =
     timers s @ (clock s + flashDuration (ev_severity ev), ClearFlash) #
       (if ev_severity ev = Some High \<or> ev_severity ev = Some Critical
        then [(clock s + 5000, ClearBanner)] else [])"
  by (simp add: triggerAlert_def setTimeout_def Let_def)

lemma triggerAlert_lastAlert:
  "lastAlert (triggerAlert ev s) =
     (if ev_severity ev = Some High \<or> ev_severity ev = Some Critical
      then Some ev else lastAlert s)"
  by (simp add: triggerAlert_def setTimeout_def Let_def)

lemma flashDuration_documented: "flashDuration (Some sev) = documentedFlashMs sev"
  by (cases sev) (simp_all add: flashDuration_def documentedFlashMs_def)

lemma flashDuration_bounds: "0 < flashDuration sev \<and> flashDuration sev \<le> 5000"
  by (simp add: flashDuration_def)

subsection \<open>The effect of time passing\<close>

lemma fold_runCallback_activeSeverity:
  "activeSeverity (fold runCallback cbs s) =
     (if ClearFlash \<in> set cbs then None else activeSeverity s)"
proof (induction cbs arbitrary: s)
  case Nil
  show ?case by simp
next
  case (Cons cb cbs)
  show ?case by (cases cb) (simp_all add: Cons.IH)
qed

lemma fold_runCallback_lastAlert:
  "lastAlert (fold runCallback cbs s) =
     (if ClearBanner \<in> set cbs then None else lastAlert s)"
proof (induction cbs arbitrary: s)
  case Nil
  show ?case by simp
next
  case (Cons cb cbs)
  show ?case by (cases cb) (simp_all add: Cons.IH)
qed

lemma fold_runCallback_isAnalyzing:
  "isAnalyzing (fold runCallback cbs s) = isAnalyzing s"
proof (induction cbs arbitrary: s)
  case Nil
  show ?case by simp
next
  case (Cons cb cbs)
  show ?case by (cases cb) (simp_all add: Cons.IH)
qed

lemma fold_runCallback_isMonitoring:
  "isMonitoring (fold runCallback cbs s) = isMonitoring s"
proof (induction cbs arbitrary: s)
  case Nil
  show ?case by simp
next
  case (Cons cb cbs)
  show ?case by (cases cb) (simp_all add: Cons.IH)
qed

lemma fold_runCallback_events: "events (fold runCallback cbs s) = events s"
proof (induction cbs arbitrary: s)
  case Nil
  show ?case by simp
next
  case (Cons cb cbs)
  show ?case by (cases cb) (simp_all add: Cons.IH)
qed

text \<open>The flash is cleared exactly when a flash-clear timer has fallen due; so is the banner.\<close>

lemma elapse_activeSeverity:
  "activeSeverity (elapse dt s) =
     (if \<exists>d. (d, ClearFlash) \<in> set (timers s) \<and> d \<le> clock s + dt
      then None else activeSeverity s)"
  by (auto simp: elapse_def Let_def fold_runCallback_activeSeverity image_iff)

lemma elapse_lastAlert:
  "lastAlert (elapse dt s) =
     (if \<exists>d. (d, ClearBanner) \<in> set (timers s) \<and> d \<le> clock s + dt
      then None else lastAlert s)"
  by (auto simp: elapse_def Let_def fold_runCallback_lastAlert image_iff)

lemma elapse_clock: "clock (elapse dt s) = clock s + dt"
  by (simp add: elapse_def Let_def)

lemma elapse_timers:
  "timers (elapse dt s) = filter (\<lambda>(d, cb). \<not> d \<le> clock s + dt) (timers s)"
  by (simp add: elapse_def Let_def)

lemma elapse_isAnalyzing: "isAnalyzing (elapse dt s) = isAnalyzing s"
  by (simp add: elapse_def Let_def fold_runCallback_isAnalyzing)

lemma elapse_isMonitoring: "isMonitoring (elapse dt s) = isMonitoring s"
  by (simp add: elapse_def Let_def fold_runCallback_isMonitoring)

lemma elapse_events: "events (elapse dt s) = events s"
  by (simp add: elapse_def Let_def fold_runCallback_events)

subsection \<open>Starting and stopping\<close>

lemma toggleMonitoring_stop:
  "isMonitoring s \<Longrightarrow> toggleMonitoring s = s\<lparr>isMonitoring := False\<rparr>"
  by (simp add: toggleMonitoring_def)

lemma toggleMonitoring_timers: "timers (toggleMonitoring s) = timers s"
  by (simp add: toggleMonitoring_def initAudio_def Let_def split: option.splits)

lemma toggleMonitoring_clock: "clock (toggleMonitoring s) = clock s"
  by (simp add: toggleMonitoring_def initAudio_def Let_def split: option.splits)

lemma toggleMonitoring_isAnalyzing: "isAnalyzing (toggleMonitoring s) = isAnalyzing s"
  by (simp add: toggleMonitoring_def initAudio_def Let_def split: option.splits)

lemma toggleMonitoring_isMonitoring: "isMonitoring (toggleMonitoring s) = (\<not> isMonitoring s)"
  by (simp add: toggleMonitoring_def initAudio_def Let_def split: option.splits)

lemma toggleMonitoring_events: "events (toggleMonitoring s) = events s"
  by (simp add: toggleMonitoring_def initAudio_def Let_def split: option.splits)

lemma elapse_stop_activeSeverity:
  "activeSeverity (elapse dt (s\<lparr>isMonitoring := b\<rparr>)) = activeSeverity (elapse dt s)"
  by (auto simp: elapse_activeSeverity)

lemma elapse_stop_lastAlert:
  "lastAlert (elapse dt (s\<lparr>isMonitoring := b\<rparr>)) = lastAlert (elapse dt s)"
  by (auto simp: elapse_lastAlert)

subsection \<open>Gains\<close>

lemma gains_generate:
  "gains (generate type now v sev)
     = replicate (toneCount type sev) (baseGain type * v * volAdjust type sev)"
  by (cases type)
     (simp_all add: generate_def toneCount_def baseGain_def volAdjust_def playSiren_def
        playBeep_def playPulse_def Let_def map_replicate_const comp_def)

lemma toneCount_pos: "0 < toneCount type sev"
  by (cases type; cases sev)
     (simp_all add: toneCount_def beepParams_def pulseParams_def)

lemma gain_factor_pos: "0 < baseGain type * volAdjust type sev"
  by (cases type; cases sev)
     (simp_all add: baseGain_def volAdjust_def sirenParams_def beepParams_def pulseParams_def)

subsection \<open>The analysis gate\<close>

lemma resume_event:
  "reasoning_steps result = Some text \<Longrightarrow>
   handleFrameCapture_resume (Fulfilled (Some result)) uuid s
     = (triggerAlert \<lparr>ev_id = uuid, ev_timestamp = clock s, ev_severity = severity result,
                      ev_message = message result, ev_location = location result,
                      ev_reasoning = reasoning_of text\<rparr> s)\<lparr>isAnalyzing := False\<rparr>"
  by (simp add: handleFrameCapture_resume_def Let_def)

lemma resume_no_event:
  "outcome = Rejected \<or> outcome = Fulfilled None
     \<or> (\<exists>result. outcome = Fulfilled (Some result) \<and> reasoning_steps result = None) \<Longrightarrow>
   handleFrameCapture_resume outcome uuid s = s\<lparr>isAnalyzing := False\<rparr>"
  by (auto simp: handleFrameCapture_resume_def Let_def)

text \<open>Every outcome either builds one event from a verdict with a reasoning string or none.\<close>

lemma resume_cases:
  "handleFrameCapture_resume outcome uuid s = s\<lparr>isAnalyzing := False\<rparr>
   \<or> (\<exists>ev. ev_reasoning ev \<noteq> [] \<and>
         handleFrameCapture_resume outcome uuid s = (triggerAlert ev s)\<lparr>isAnalyzing := False\<rparr>)"
proof (cases outcome)
  case Rejected
  then show ?thesis by (simp add: resume_no_event)
next
  case (Fulfilled v)
  show ?thesis
  proof (cases v)
    case None
    with Fulfilled show ?thesis by (simp add: resume_no_event)
  next
    case (Some result)
    show ?thesis
    proof (cases "reasoning_steps result")
      case None
      with Fulfilled Some show ?thesis by (simp add: resume_no_event)
    next
      case (Some steps)
      define ev where
        "ev = \<lparr>ev_id = uuid, ev_timestamp = clock s, ev_severity = severity result,
               ev_message = message result, ev_location = location result,
               ev_reasoning = reasoning_of steps\<rparr>"
      have "ev_reasoning ev \<noteq> []"
        by (simp add: ev_def reasoning_of_nonempty)
      moreover have "handleFrameCapture_resume outcome uuid s
                       = (triggerAlert ev s)\<lparr>isAnalyzing := False\<rparr>"
        using Fulfilled \<open>v = Some result\<close> resume_event [OF Some, of uuid s]
        by (simp add: ev_def)
      ultimately show ?thesis by blast
    qed
  qed
qed

lemma resume_clock: "clock (handleFrameCapture_resume outcome uuid s) = clock s"
  using resume_cases [of outcome uuid s] by (auto simp: triggerAlert_clock)

lemma resume_isAnalyzing: "\<not> isAnalyzing (handleFrameCapture_resume outcome uuid s)"
  by (simp add: handleFrameCapture_resume_def Let_def)

lemma resume_timers:
  assumes "(d, cb) \<in> set (timers (handleFrameCapture_resume outcome uuid s))"
  shows "(d, cb) \<in> set (timers s) \<or> (clock s < d \<and> d \<le> clock s + 5000)"
  using resume_cases [of outcome uuid s] assms flashDuration_bounds
  by (auto simp: triggerAlert_timers split: if_splits)

lemma analyzeFrame_unusable:
  assumes "oracle (cleanBase64 frame) = OracleError
           \<or> (\<exists>r. oracle (cleanBase64 frame) = OracleResponse r \<and> unusableVerdict r)"
  shows "analyzeFrame (Some oracle) frame = Fulfilled None
         \<or> (\<exists>result. analyzeFrame (Some oracle) frame = Fulfilled (Some result)
               \<and> reasoning_steps result = None)"
proof -
  from assms consider
      (err) "oracle (cleanBase64 frame) = OracleError"
    | (resp) r where "oracle (cleanBase64 frame) = OracleResponse r" and "unusableVerdict r"
    by blast
  then show ?thesis
  proof cases
    case err
    then show ?thesis by (simp add: analyzeFrame_def)
  next
    case resp
    show ?thesis
    proof (cases "firstCall r")
      case None
      with resp(1) show ?thesis
        by (auto simp: analyzeFrame_def firstCall_def split: option.splits list.splits)
    next
      case (Some call)
      then have fc: "\<exists>candidate others ps calls. r = Some (candidate # others)
                 \<and> parts candidate = Some ps
                 \<and> List.map_filter functionCall ps = call # calls"
        by (auto simp: firstCall_def split: option.splits list.splits)
      from resp(2) Some have
        "(name call \<noteq> ''report_safety_violation'' \<and> name call \<noteq> ''report_safe_status'')
          \<or> args call = None
          \<or> (name call = ''report_safety_violation''
              \<and> (case args call of None \<Rightarrow> True | Some a \<Rightarrow> reasoning_steps a = None))"
        by (simp add: unusableVerdict_def)
      with fc resp(1) show ?thesis
        by (auto simp: analyzeFrame_def split: option.splits)
    qed
  qed
qed

lemma handleFrameCapture_no_event:
  assumes "analyzeFrame client frame = Rejected
           \<or> analyzeFrame client frame = Fulfilled None
           \<or> (\<exists>result. analyzeFrame client frame = Fulfilled (Some result)
                 \<and> reasoning_steps result = None)"
    and "\<not> isAnalyzing s"
  shows "handleFrameCapture client uuid frame s = s\<lparr>oracleCalls := oracleCalls s @ [frame]\<rparr>"
proof -
  have "handleFrameCapture_resume (analyzeFrame client frame) uuid
          (handleFrameCapture_submit frame s)
        = (handleFrameCapture_submit frame s)\<lparr>isAnalyzing := False\<rparr>"
    using assms(1) by (rule resume_no_event)
  with assms(2) show ?thesis
    by (simp add: handleFrameCapture_def handleFrameCapture_submit_def)
qed

subsection \<open>Runs: no timer is pending when an analysis is in flight\<close>

text \<open>
  Every pending timer is due later than now and at most 5000 ms from now, and not later
  than the next tick of the capture interval; no timer is pending while an analysis is in
  flight; the next tick is not in the past.
\<close>

definition timersSettled :: "Session \<Rightarrow> bool" where
  "timersSettled \<sigma> \<longleftrightarrow>
     (\<forall>(d, cb) \<in> set (timers (app \<sigma>)).
         clock (app \<sigma>) < d \<and> d \<le> clock (app \<sigma>) + 5000
         \<and> (\<forall>c. intervalDue (feed \<sigma>) = Some c \<longrightarrow> d \<le> c))
     \<and> (isAnalyzing (app \<sigma>) \<longrightarrow> timers (app \<sigma>) = [])
     \<and> (\<forall>c. intervalDue (feed \<sigma>) = Some c \<longrightarrow> clock (app \<sigma>) \<le> c)"

lemma timersSettled_initial: "timersSettled initialSession"
  by (simp add: timersSettled_def initialSession_def initialState_def)

lemma step_Elapse_settled:
  assumes "timersSettled \<sigma>"
  shows "timersSettled (step (Elapse dt) \<sigma>)"
  using assms
  by (auto simp: timersSettled_def elapse_timers elapse_clock elapse_isAnalyzing
           split: option.splits)

lemma step_IntervalTick_settled:
  assumes "timersSettled \<sigma>"
  shows "timersSettled (step (IntervalTick frame) \<sigma>)"
proof (cases "intervalDue (feed \<sigma>) = Some (clock (app \<sigma>))")
  case False
  with assms show ?thesis by simp
next
  case True
  with assms have none: "timers (app \<sigma>) = []"
    by (cases "timers (app \<sigma>)") (auto simp: timersSettled_def)
  with True show ?thesis
    by (cases frame)
       (simp_all add: timersSettled_def handleFrameCapture_submit_def intervalMs_def)
qed

lemma step_AnalysisReturns_settled:
  assumes "timersSettled \<sigma>"
  shows "timersSettled (step (AnalysisReturns outcome uuid) \<sigma>)"
proof (cases "isAnalyzing (app \<sigma>)")
  case False
  with assms show ?thesis by simp
next
  case True
  with assms have none: "timers (app \<sigma>) = []"
    by (simp add: timersSettled_def)
  have new: "clock (app \<sigma>) < d \<and> d \<le> clock (app \<sigma>) + 5000"
    if "(d, cb) \<in> set (timers (handleFrameCapture_resume outcome uuid (app \<sigma>)))" for d cb
    using resume_timers [OF that] none by simp
  from True show ?thesis
    by (auto simp: timersSettled_def Let_def captureLoop_def intervalMs_def resume_clock
          resume_isAnalyzing dest: new)
qed

lemma step_ClickMonitoring_settled:
  assumes "timersSettled \<sigma>"
  shows "timersSettled (step ClickMonitoring \<sigma>)"
  using assms
  by (auto simp: timersSettled_def Let_def captureLoop_def intervalMs_def
        toggleMonitoring_timers toggleMonitoring_clock toggleMonitoring_isAnalyzing)

lemma step_settled:
  assumes "timersSettled \<sigma>"
  shows "timersSettled (step i \<sigma>)"
proof (cases i)
  case (Elapse dt)
  with assms show ?thesis by (simp only: step_Elapse_settled)
next
  case (IntervalTick frame)
  with assms show ?thesis by (simp only: step_IntervalTick_settled)
next
  case (AnalysisReturns outcome uuid)
  with assms show ?thesis by (simp only: step_AnalysisReturns_settled)
next
  case ClickMonitoring
  with assms show ?thesis by (simp only: step_ClickMonitoring_settled)
next
  case VideoChanged
  with assms show ?thesis
    by (auto simp: timersSettled_def Let_def captureLoop_def)
next
  case (PermissionChanged b)
  with assms show ?thesis
    by (auto simp: timersSettled_def captureLoop_def intervalMs_def)
next
  case (SetMuted b)
  with assms show ?thesis by (simp add: timersSettled_def)
next
  case (SetVolume v)
  with assms show ?thesis by (simp add: timersSettled_def)
next
  case (SetAlertSound t)
  with assms show ?thesis by (simp add: timersSettled_def)
next
  case Preview
  with assms show ?thesis by (simp add: timersSettled_def)
next
  case (AudioGrantedChanged b)
  with assms show ?thesis by (simp add: timersSettled_def)
qed

lemma run_settled: "timersSettled \<sigma> \<Longrightarrow> timersSettled (run inputs \<sigma>)"
  by (induction inputs arbitrary: \<sigma>) (simp_all add: step_settled)

lemma in_flight_no_timers:
  "isAnalyzing (app (run inputs initialSession)) \<Longrightarrow>
   timers (app (run inputs initialSession)) = []"
  using run_settled [OF timersSettled_initial, of inputs]
  by (simp add: timersSettled_def)

text \<open>Reading a field of the state through the operations, to follow a run step by step.\<close>

lemmas projections =
  elapse_isAnalyzing elapse_clock elapse_timers elapse_isMonitoring elapse_events
  toggleMonitoring_timers toggleMonitoring_clock toggleMonitoring_isAnalyzing
  toggleMonitoring_isMonitoring toggleMonitoring_events
  triggerAlert_events triggerAlert_clock triggerAlert_isMonitoring triggerAlert_timers

section \<open>The claims\<close>

subsection \<open>Analysis gate\<close>

text \<open>
  Claim C1. Single-flight analysis: a frame submitted while an analysis is in flight
  (\<open>isAnalyzing\<close> is true) changes nothing: no oracle call is made and no event is
  produced. A frame submitted while none is in flight sets the flag and makes exactly one
  oracle call. When the awaited analysis comes back, the flag is false again on every path:
  a verdict, no verdict, or a rejected promise.
  The handler reads the flag as it is when the handler runs: the capture loop is set up
  again with the new handler whenever the flag changes.
\<close>

theorem single_flight:
  "(isAnalyzing s \<longrightarrow> handleFrameCapture_submit frame s = s)
   \<and> (\<not> isAnalyzing s \<longrightarrow>
        handleFrameCapture_submit frame s
          = s\<lparr>isAnalyzing := True, oracleCalls := oracleCalls s @ [frame]\<rparr>)
   \<and> \<not> isAnalyzing (handleFrameCapture_resume outcome uuid s)"
  by (simp add: handleFrameCapture_submit_def resume_isAnalyzing)

theorem single_flight_witness:
  "\<not> isAnalyzing initialState
   \<and> isAnalyzing (handleFrameCapture_submit ''frame1'' initialState)
   \<and> handleFrameCapture_submit ''frame2'' (handleFrameCapture_submit ''frame1'' initialState)
       = handleFrameCapture_submit ''frame1'' initialState
   \<and> oracleCalls (handleFrameCapture_submit ''frame2''
        (handleFrameCapture_submit ''frame1'' initialState)) = [''frame1'']
   \<and> \<not> isAnalyzing (handleFrameCapture_resume Rejected ''u1''
        (handleFrameCapture_submit ''frame1'' initialState))"
  using single_flight [of initialState "''frame1''"]
        single_flight [of "handleFrameCapture_submit ''frame1'' initialState" "''frame2''"
          Rejected "''u1''"]
  by (simp add: initialState_def)

subsection \<open>Audio engine\<close>

text \<open>
  Claim C2. \<open>playAlertSound force severity\<close> does nothing when it is not forced and the
  engine is muted, and nothing when the severity is \<open>safe\<close> and it is not forced; an event
  of severity \<open>safe\<close> schedules no audio, whatever the mute flag. A forced call passes both
  guards: where an audio device exists or can be created, it schedules the selected
  generator with the given severity, muted or not, \<open>safe\<close> or not.
\<close>

theorem play_guards:
  "(\<not> force \<and> isMuted s \<longrightarrow> playAlertSound force sev s = s)
   \<and> (sev = Safe \<and> \<not> force \<longrightarrow> playAlertSound force sev s = s)
   \<and> (ev_severity ev = Some Safe \<longrightarrow> audioOut (triggerAlert ev s) = audioOut s)
   \<and> (audioCtx s \<noteq> None \<or> audioGranted s \<longrightarrow>
        audioOut (playAlertSound True sev s)
          = audioOut s @ [generate (alertSound s) (deviceClock s) (volume s) sev])"
proof (intro conjI impI)
  assume "\<not> force \<and> isMuted s"
  then show "playAlertSound force sev s = s"
    by (simp add: playAlertSound_def)
next
  assume "sev = Safe \<and> \<not> force"
  then show "playAlertSound force sev s = s"
    by (simp add: playAlertSound_def)
next
  assume "ev_severity ev = Some Safe"
  then show "audioOut (triggerAlert ev s) = audioOut s"
    by (simp add: triggerAlert_def setTimeout_def Let_def)
next
  assume "audioCtx s \<noteq> None \<or> audioGranted s"
  then show "audioOut (playAlertSound True sev s)
          = audioOut s @ [generate (alertSound s) (deviceClock s) (volume s) sev]"
    by (rule playAlertSound_forced)
qed

theorem play_guards_witness:
  "isMuted mutedState
   \<and> playAlertSound False High mutedState = mutedState
   \<and> playAlertSound False Safe initialState = initialState
   \<and> ev_severity safeEvent = Some Safe
   \<and> audioOut (triggerAlert safeEvent initialState) = []
   \<and> audioGranted mutedState
   \<and> audioOut (playAlertSound True Safe mutedState) = [generate Siren 0 (1 / 2) Safe]"
  using play_guards [of False mutedState High safeEvent]
        play_guards [of False initialState Safe safeEvent]
        play_guards [of True mutedState Safe safeEvent]
  by (simp add: mutedState_def initialState_def deviceClock_def safeEvent_def)

subsection \<open>Normalising the verdict\<close>

text \<open>
  Claim C3, as amended. The event of a completed analysis, which is built from a verdict
  with a \<open>reasoning_steps\<close> string, carries that text split at the numbered-list delimiter,
  each fragment trimmed and the empty ones dropped, and it always has at least one step:
  whatever comes back from the analysis, every event of the log keeps a reasoning that is
  not empty. When the text has no delimiter, the only step is the text with the white space
  around it trimmed, and the raw text itself when trimming leaves nothing. The text
  \<open>1. Worker detected. 2. No harness.\<close> gives the two steps \<open>Worker detected.\<close> and
  \<open>No harness.\<close>
\<close>

theorem reasoning_normalised:
  "(reasoning_steps result = Some steps \<longrightarrow>
      (\<exists>ev. events (handleFrameCapture_resume (Fulfilled (Some result)) uuid s)
               = events s @ [ev]
         \<and> ev_reasoning ev = reasoning_of steps
         \<and> ev_reasoning ev \<noteq> []))
   \<and> ((\<forall>e \<in> set (events s). ev_reasoning e \<noteq> []) \<longrightarrow>
        (\<forall>e \<in> set (events (handleFrameCapture_resume outcome uuid s)). ev_reasoning e \<noteq> []))
   \<and> (\<not> hasDelim text \<longrightarrow>
        reasoning_of text = [if trim text = [] then text else trim text])
   \<and> reasoning_of ''1. Worker detected. 2. No harness.''
        = [''Worker detected.'', ''No harness.'']"
proof (intro conjI impI)
  assume "reasoning_steps result = Some steps"
  then show "\<exists>ev. events (handleFrameCapture_resume (Fulfilled (Some result)) uuid s)
               = events s @ [ev]
         \<and> ev_reasoning ev = reasoning_of steps
         \<and> ev_reasoning ev \<noteq> []"
    by (simp add: resume_event triggerAlert_events reasoning_of_nonempty)
next
  assume "\<forall>e \<in> set (events s). ev_reasoning e \<noteq> []"
  then show "\<forall>e \<in> set (events (handleFrameCapture_resume outcome uuid s)).
               ev_reasoning e \<noteq> []"
    using resume_cases [of outcome uuid s] by (auto simp: triggerAlert_events)
next
  assume "\<not> hasDelim text"
  then show "reasoning_of text = [if trim text = [] then text else trim text]"
    by (rule reasoning_of_no_delim)
next
  show "reasoning_of ''1. Worker detected. 2. No harness.''
          = [''Worker detected.'', ''No harness.'']"
    by (simp add: reasoning_of_def split_numbered_def matchDelim_def trim_def isDigit_def
          isWhiteSpace_def)
qed

theorem reasoning_normalised_witness:
  "reasoning_steps criticalVerdict = Some ''1. Worker detected. 2. No harness.''
   \<and> map ev_reasoning
        (events (handleFrameCapture_resume (Fulfilled (Some criticalVerdict)) ''e1''
                   initialState))
       = [[''Worker detected.'', ''No harness.'']]
   \<and> [] \<notin> set (map ev_reasoning (events afterCriticalEvent))
   \<and> [] \<notin> set (map ev_reasoning
                    (events (handleFrameCapture_resume (Fulfilled (Some lowVerdict)) ''e2''
                               afterCriticalEvent)))
   \<and> \<not> hasDelim ''All clear \<newline>'' \<and> reasoning_of ''All clear \<newline>'' = [''All clear'']"
proof -
  have a: "\<forall>e \<in> set (events afterCriticalEvent). ev_reasoning e \<noteq> []"
    by (simp add: afterCriticalEvent_def triggerAlert_events initialState_def
          criticalEvent_def)
  have b: "\<not> hasDelim ''All clear \<newline>''"
    by (simp add: matchDelim_def isDigit_def)
  have c: "reasoning_steps criticalVerdict = Some ''1. Worker detected. 2. No harness.''"
    by (simp add: criticalVerdict_def)
  have t: "trim ''All clear \<newline>'' = ''All clear''"
    by (simp add: trim_def isWhiteSpace_def)
  have i: "events initialState = []"
    by (simp add: initialState_def)
  note w = reasoning_normalised [of criticalVerdict "''1. Worker detected. 2. No harness.''"
        "''e1''" initialState "Fulfilled (Some lowVerdict)" "''All clear \<newline>''"]
  from w c obtain ev where
    ev: "events (handleFrameCapture_resume (Fulfilled (Some criticalVerdict)) ''e1''
                   initialState) = events initialState @ [ev]"
        "ev_reasoning ev = reasoning_of ''1. Worker detected. 2. No harness.''"
    by blast
  from w have ex: "reasoning_of ''1. Worker detected. 2. No harness.''
                     = [''Worker detected.'', ''No harness.'']"
    by blast
  from w b t have nd: "reasoning_of ''All clear \<newline>'' = [''All clear'']"
    by simp
  from reasoning_normalised [of criticalVerdict "''1. Worker detected. 2. No harness.''"
        "''e2''" afterCriticalEvent "Fulfilled (Some lowVerdict)" "''All clear \<newline>''"] a
  have inv: "\<forall>e \<in> set (events (handleFrameCapture_resume (Fulfilled (Some lowVerdict))
                ''e2'' afterCriticalEvent)). ev_reasoning e \<noteq> []"
    by blast
  from ev ex i have "map ev_reasoning
        (events (handleFrameCapture_resume (Fulfilled (Some criticalVerdict)) ''e1''
                   initialState)) = [[''Worker detected.'', ''No harness.'']]"
    by simp
  with a b c nd inv show ?thesis
    by auto
qed

text \<open>
  The claim as it stands fails: a text without a delimiter but with white space around it
  does not come back whole.
\<close>

theorem reasoning_untrimmed_counterexample:
  "\<not> hasDelim ''All clear \<newline>'' \<and> reasoning_of ''All clear \<newline>'' \<noteq> [''All clear \<newline>'']"
  by (simp add: reasoning_of_def split_numbered_def matchDelim_def trim_def isDigit_def
        isWhiteSpace_def)

subsection \<open>Alert orchestration\<close>

text \<open>
  Claim C4. In every run of the program, when an analysis comes back with a verdict and
  the event is raised, the flash is set to the event's severity; as time passes with no
  further event, it stays set for exactly the documented duration of the severity
  (critical 1200, high 900, medium 700, low 400, safe 500 milliseconds) and is cleared
  then. No timer of an earlier event interferes: the capture interval of 5000 ms is
  registered anew when an analysis comes back, so the next frame is submitted when every
  timer of the earlier event has fired.
\<close>

theorem flash_clears_after_duration:
  assumes "isAnalyzing (app (run inputs initialSession))"
    and "reasoning_steps result = Some steps"
    and "severity result = Some sev"
  shows "activeSeverity
           (app (step (AnalysisReturns (Fulfilled (Some result)) uuid)
                  (run inputs initialSession))) = Some sev
         \<and> activeSeverity
             (elapse dt
               (app (step (AnalysisReturns (Fulfilled (Some result)) uuid)
                      (run inputs initialSession))))
             = (if dt < documentedFlashMs sev then Some sev else None)"
proof -
  let ?s = "app (run inputs initialSession)"
  let ?ev = "\<lparr>ev_id = uuid, ev_timestamp = clock ?s, ev_severity = severity result,
              ev_message = message result, ev_location = location result,
              ev_reasoning = reasoning_of steps\<rparr>"
  have none: "timers ?s = []"
    using assms(1) by (rule in_flight_no_timers)
  have after: "app (step (AnalysisReturns (Fulfilled (Some result)) uuid)
                     (run inputs initialSession))
               = (triggerAlert ?ev ?s)\<lparr>isAnalyzing := False\<rparr>"
    using assms(1) resume_event [OF assms(2), of uuid ?s] by (simp add: Let_def)
  have due: "(\<exists>d. (d, ClearFlash) \<in> set (timers (triggerAlert ?ev ?s)) \<and> d \<le> clock ?s + dt)
             \<longleftrightarrow> \<not> dt < documentedFlashMs sev"
    using none assms(3) by (auto simp: triggerAlert_timers flashDuration_documented)
  show ?thesis
    unfolding after
    using due assms(3)
    by (simp add: elapse_activeSeverity triggerAlert_clock triggerAlert_activeSeverity)
qed

theorem flash_clears_after_duration_witness:
  "isAnalyzing (app (run secondAnalysisInFlight initialSession))
   \<and> length (events (app (run secondAnalysisInFlight initialSession))) = 1
   \<and> activeSeverity
       (elapse 699
         (app (step (AnalysisReturns (Fulfilled (Some mediumVerdict)) ''e2'')
                (run secondAnalysisInFlight initialSession)))) = Some Medium
   \<and> activeSeverity
       (elapse 700
         (app (step (AnalysisReturns (Fulfilled (Some mediumVerdict)) ''e2'')
                (run secondAnalysisInFlight initialSession)))) = None"
proof -
  have r: "isAnalyzing (app (run secondAnalysisInFlight initialSession))
           \<and> length (events (app (run secondAnalysisInFlight initialSession))) = 1"
    by (simp add: secondAnalysisInFlight_def initialSession_def initialState_def
          captureLoop_def intervalMs_def Let_def handleFrameCapture_submit_def
          resume_event criticalVerdict_def projections flashDuration_def)
  then have a: "isAnalyzing (app (run secondAnalysisInFlight initialSession))"
    by simp
  have v: "reasoning_steps mediumVerdict = Some ''1. Worker near forklift. 2. No vest.''"
          "severity mediumVerdict = Some Medium"
    by (simp_all add: mediumVerdict_def)
  show ?thesis
    using r flash_clears_after_duration [OF a v, of "''e2''" 699]
          flash_clears_after_duration [OF a v, of "''e2''" 700]
    by (simp add: documentedFlashMs_def)
qed

text \<open>
  Claim C5. An event sets the banner to itself if and only if its severity is high or
  critical; an event of any other severity leaves the banner as it is and sets no banner
  timer. In every run of the program, when an analysis comes back with a verdict of
  severity high or critical, the banner shows the event; as time passes with no further
  event, it stays for exactly 5000 milliseconds and is cleared then.
\<close>

theorem banner_high_critical_5000:
  "lastAlert (triggerAlert ev s)
     = (if ev_severity ev = Some High \<or> ev_severity ev = Some Critical
        then Some ev else lastAlert s)
   \<and> (\<not> (ev_severity ev = Some High \<or> ev_severity ev = Some Critical) \<longrightarrow>
        filter (\<lambda>(d, cb). cb = ClearBanner) (timers (triggerAlert ev s))
          = filter (\<lambda>(d, cb). cb = ClearBanner) (timers s))
   \<and> (isAnalyzing (app (run inputs initialSession))
        \<and> reasoning_steps result = Some steps
        \<and> severity result = Some sev \<and> bannerSeverity sev \<longrightarrow>
        (\<exists>e. ev_id e = uuid \<and> ev_severity e = Some sev
            \<and> lastAlert
                  (app (step (AnalysisReturns (Fulfilled (Some result)) uuid)
                         (run inputs initialSession))) = Some e
            \<and> lastAlert
                  (elapse dt
                    (app (step (AnalysisReturns (Fulfilled (Some result)) uuid)
                           (run inputs initialSession))))
                = (if dt < 5000 then Some e else None)))"
proof (intro conjI impI)
  show "lastAlert (triggerAlert ev s)
     = (if ev_severity ev = Some High \<or> ev_severity ev = Some Critical
        then Some ev else lastAlert s)"
    by (rule triggerAlert_lastAlert)
next
  assume "\<not> (ev_severity ev = Some High \<or> ev_severity ev = Some Critical)"
  then show "filter (\<lambda>(d, cb). cb = ClearBanner) (timers (triggerAlert ev s))
          = filter (\<lambda>(d, cb). cb = ClearBanner) (timers s)"
    by (simp add: triggerAlert_timers)
next
  assume a: "isAnalyzing (app (run inputs initialSession))
        \<and> reasoning_steps result = Some steps
        \<and> severity result = Some sev \<and> bannerSeverity sev"
  let ?s = "app (run inputs initialSession)"
  let ?e = "\<lparr>ev_id = uuid, ev_timestamp = clock ?s, ev_severity = severity result,
             ev_message = message result, ev_location = location result,
             ev_reasoning = reasoning_of steps\<rparr>"
  from a have none: "timers ?s = []"
    by (simp add: in_flight_no_timers)
  from a have after: "app (step (AnalysisReturns (Fulfilled (Some result)) uuid)
                            (run inputs initialSession))
                      = (triggerAlert ?e ?s)\<lparr>isAnalyzing := False\<rparr>"
    using resume_event [of result steps uuid ?s] by (simp add: Let_def)
  from a have sev: "ev_severity ?e = Some High \<or> ev_severity ?e = Some Critical"
    by (simp add: bannerSeverity_def)
  have due: "(\<exists>d. (d, ClearBanner) \<in> set (timers (triggerAlert ?e ?s)) \<and> d \<le> clock ?s + dt)
             \<longleftrightarrow> \<not> dt < 5000"
    using none sev by (auto simp: triggerAlert_timers)
  have "ev_id ?e = uuid \<and> ev_severity ?e = Some sev
        \<and> lastAlert ((triggerAlert ?e ?s)\<lparr>isAnalyzing := False\<rparr>) = Some ?e
        \<and> lastAlert (elapse dt ((triggerAlert ?e ?s)\<lparr>isAnalyzing := False\<rparr>))
            = (if dt < 5000 then Some ?e else None)"
    using due sev a
    by (simp add: elapse_lastAlert triggerAlert_clock triggerAlert_lastAlert)
  then show "\<exists>e. ev_id e = uuid \<and> ev_severity e = Some sev
            \<and> lastAlert
                  (app (step (AnalysisReturns (Fulfilled (Some result)) uuid)
                         (run inputs initialSession))) = Some e
            \<and> lastAlert
                  (elapse dt
                    (app (step (AnalysisReturns (Fulfilled (Some result)) uuid)
                           (run inputs initialSession))))
                = (if dt < 5000 then Some e else None)"
    unfolding after by blast
qed

theorem banner_high_critical_5000_witness:
  "lastAlert (triggerAlert criticalEvent initialState) = Some criticalEvent
   \<and> lastAlert (triggerAlert lowEvent initialState) = None
   \<and> filter (\<lambda>(d, cb). cb = ClearBanner) (timers (triggerAlert lowEvent initialState)) = []
   \<and> isAnalyzing (app (run secondAnalysisInFlight initialSession))
   \<and> length (events (app (run secondAnalysisInFlight initialSession))) = 1
   \<and> bannerSeverity High
   \<and> (\<exists>e. ev_id e = ''e2'' \<and> ev_severity e = Some High
          \<and> lastAlert
                (elapse 4999
                  (app (step (AnalysisReturns (Fulfilled (Some highVerdict)) ''e2'')
                         (run secondAnalysisInFlight initialSession)))) = Some e
          \<and> lastAlert
                (elapse 5000
                  (app (step (AnalysisReturns (Fulfilled (Some highVerdict)) ''e2'')
                         (run secondAnalysisInFlight initialSession)))) = None)"
proof -
  have r: "isAnalyzing (app (run secondAnalysisInFlight initialSession))
           \<and> length (events (app (run secondAnalysisInFlight initialSession))) = 1"
    by (simp add: secondAnalysisInFlight_def initialSession_def initialState_def
          captureLoop_def intervalMs_def Let_def handleFrameCapture_submit_def
          resume_event criticalVerdict_def projections flashDuration_def)
  have v: "reasoning_steps highVerdict = Some ''1. Worker detected. 2. No hard hat.''
           \<and> severity highVerdict = Some High \<and> bannerSeverity High"
    by (simp add: highVerdict_def bannerSeverity_def)
  have c: "ev_severity criticalEvent = Some Critical" "ev_severity lowEvent = Some Low"
          "lastAlert initialState = None" "timers initialState = []"
    by (simp_all add: criticalEvent_def lowEvent_def initialState_def)
  show ?thesis
    using r v c
      banner_high_critical_5000 [of criticalEvent initialState secondAnalysisInFlight
        highVerdict "''1. Worker detected. 2. No hard hat.''" High "''e2''" 4999]
      banner_high_critical_5000 [of lowEvent initialState secondAnalysisInFlight
        highVerdict "''1. Worker detected. 2. No hard hat.''" High "''e2''" 5000]
    by auto
qed

subsection \<open>Waveform generators\<close>

text \<open>
  Claim C6. For every generator and every severity (the alerting ones in particular), every
  tone a call schedules has the gain \<open>baseGain \<times> masterVolume \<times> volAdjust\<close>, and a call
  schedules at least one tone. So the gain is 0 at volume 0, and it is strictly increasing
  in the volume. Numbers are reals here: the rounding of JavaScript's doubles is left out.
\<close>

theorem gain_scaled_by_volume:
  "gains (generate type now v sev)
     = replicate (toneCount type sev) (baseGain type * v * volAdjust type sev)
   \<and> 0 < toneCount type sev
   \<and> gains (generate type now 0 sev) = replicate (toneCount type sev) 0
   \<and> (v < v' \<longrightarrow>
        baseGain type * v * volAdjust type sev < baseGain type * v' * volAdjust type sev)"
proof (intro conjI impI)
  show "gains (generate type now v sev)
     = replicate (toneCount type sev) (baseGain type * v * volAdjust type sev)"
    by (rule gains_generate)
  show "0 < toneCount type sev"
    by (rule toneCount_pos)
  show "gains (generate type now 0 sev) = replicate (toneCount type sev) 0"
    by (simp add: gains_generate)
next
  assume lt: "v < v'"
  have "v * (baseGain type * volAdjust type sev) < v' * (baseGain type * volAdjust type sev)"
    using lt gain_factor_pos [of type sev] by (rule mult_strict_right_mono)
  then show "baseGain type * v * volAdjust type sev < baseGain type * v' * volAdjust type sev"
    by (simp add: mult.assoc mult.left_commute mult.commute)
qed

theorem gain_scaled_by_volume_witness:
  "gains (generate Beep 0 (1/2) Critical) = [33/200, 33/200, 33/200]
   \<and> gains (generate Beep 0 0 Critical) = [0, 0, 0]
   \<and> (1/4 :: real) < 1/2
   \<and> baseGain Beep * (1/4) * volAdjust Beep Critical
       < baseGain Beep * (1/2) * volAdjust Beep Critical"
  using gain_scaled_by_volume [of Beep 0 "1/2" Critical "1/2"]
        gain_scaled_by_volume [of Beep 0 "1/4" Critical "1/2"]
  by (simp add: toneCount_def baseGain_def volAdjust_def beepParams_def numeral_3_eq_3)

text \<open>
  Claim C7, as amended. A generator called with severity \<open>safe\<close> does not fail: it takes
  the default branch of its \<open>switch\<close>, which is the branch of \<open>high\<close>, and schedules
  exactly what it schedules for \<open>high\<close>.
\<close>

theorem safe_treated_as_high:
  "generate type now v Safe = generate type now v High"
  by (cases type)
     (simp_all add: generate_def playSiren_def playBeep_def playPulse_def
        sirenParams_def beepParams_def pulseParams_def)

text \<open>
  The claim as it stands fails: the beep for \<open>safe\<close> is not rejected (two tones are
  scheduled) and it is not the entry of \<open>low\<close> (one tone at 440 Hz) but two tones at
  1200 Hz.
\<close>

theorem safe_generator_counterexample:
  "playBeep 0 1 Safe \<noteq> playBeep 0 1 Low \<and> playBeep 0 1 Safe \<noteq> []
   \<and> map frequency (playBeep 0 1 Safe) = [1200, 1200]
   \<and> map frequency (playBeep 0 1 Low) = [440]"
  by (simp add: playBeep_def beepParams_def upt_rec)

subsection \<open>Stopping\<close>

text \<open>
  Claim C8, as amended. Stopping monitoring only flips the monitoring flag. No timer is
  cancelled: the pending flash-clear and banner-clear timers stay pending, and as time
  passes after the stop they clear the flash and the banner just as they would have without
  the stop.
\<close>

theorem stop_keeps_timers:
  "isMonitoring s \<longrightarrow>
     toggleMonitoring s = s\<lparr>isMonitoring := False\<rparr>
     \<and> timers (toggleMonitoring s) = timers s
     \<and> activeSeverity (elapse dt (toggleMonitoring s)) = activeSeverity (elapse dt s)
     \<and> lastAlert (elapse dt (toggleMonitoring s)) = lastAlert (elapse dt s)"
  by (simp add: toggleMonitoring_stop elapse_stop_activeSeverity elapse_stop_lastAlert)

theorem stop_keeps_timers_witness:
  "isMonitoring monitoringWithAlert
   \<and> timers (toggleMonitoring monitoringWithAlert) = [(1200, ClearFlash), (5000, ClearBanner)]
   \<and> activeSeverity (elapse 1200 (toggleMonitoring monitoringWithAlert)) = None"
  using stop_keeps_timers [of monitoringWithAlert 1200]
  by (simp add: monitoringWithAlert_def triggerAlert_timers triggerAlert_clock
        triggerAlert_activeSeverity elapse_activeSeverity
        toggleMonitoring_def initAudio_def initialState_def criticalEvent_def flashDuration_def
        triggerAlert_def setTimeout_def playAlertSound_def Let_def)

text \<open>
  The claim as it stands fails: monitoring is stopped right after a critical event. The two
  timers are still pending after the stop, and they fire: the flash, still set at the stop,
  is cleared 1200 milliseconds later, the banner 5000 milliseconds later.
\<close>

theorem stop_orphaned_timer_counterexample:
  "isMonitoring monitoringWithAlert
   \<and> \<not> isMonitoring (toggleMonitoring monitoringWithAlert)
   \<and> timers (toggleMonitoring monitoringWithAlert) \<noteq> []
   \<and> activeSeverity (toggleMonitoring monitoringWithAlert) = Some Critical
   \<and> activeSeverity (elapse 1200 (toggleMonitoring monitoringWithAlert)) = None
   \<and> lastAlert (toggleMonitoring monitoringWithAlert) = Some criticalEvent
   \<and> lastAlert (elapse 5000 (toggleMonitoring monitoringWithAlert)) = None"
  by (simp add: monitoringWithAlert_def elapse_activeSeverity elapse_lastAlert
        toggleMonitoring_def initAudio_def initialState_def criticalEvent_def flashDuration_def
        triggerAlert_def setTimeout_def playAlertSound_def Let_def)

subsection \<open>Oracle failures and the safe status\<close>

text \<open>
  Claim C9, as amended. When the oracle request fails, when the client cannot be
  constructed, or when the response is one from which the code builds no event (no function
  call, a first call of another name or without an arguments object, or a violation call
  without a reasoning string), nothing is raised to the caller of the frame handler and no
  event is produced or logged: started with no analysis in flight, the handler leaves the
  state as it was but for the recorded oracle call, with the flag false again, so the next
  frame is accepted. For a failed request and for such a response, \<open>analyzeFrame\<close> returns
  null or, for the violation call, the arguments without a reasoning string. Coming back
  with null or with a rejection, the handler only resets the flag.
\<close>

theorem oracle_failure_no_event:
  "(oracle (cleanBase64 frame) = OracleError
      \<or> (\<exists>r. oracle (cleanBase64 frame) = OracleResponse r \<and> unusableVerdict r) \<longrightarrow>
      (analyzeFrame (Some oracle) frame = Fulfilled None
         \<or> (\<exists>result. analyzeFrame (Some oracle) frame = Fulfilled (Some result)
               \<and> reasoning_steps result = None))
      \<and> (\<not> isAnalyzing s \<longrightarrow>
           handleFrameCapture (Some oracle) uuid frame s
             = s\<lparr>oracleCalls := oracleCalls s @ [frame]\<rparr>))
   \<and> (\<not> isAnalyzing s \<longrightarrow>
        handleFrameCapture None uuid frame s = s\<lparr>oracleCalls := oracleCalls s @ [frame]\<rparr>)
   \<and> handleFrameCapture_resume (Fulfilled None) uuid s = s\<lparr>isAnalyzing := False\<rparr>
   \<and> handleFrameCapture_resume Rejected uuid s = s\<lparr>isAnalyzing := False\<rparr>"
proof (intro conjI impI)
  assume a: "oracle (cleanBase64 frame) = OracleError
      \<or> (\<exists>r. oracle (cleanBase64 frame) = OracleResponse r \<and> unusableVerdict r)"
  then show none: "analyzeFrame (Some oracle) frame = Fulfilled None
         \<or> (\<exists>result. analyzeFrame (Some oracle) frame = Fulfilled (Some result)
               \<and> reasoning_steps result = None)"
    by (rule analyzeFrame_unusable)
  assume "\<not> isAnalyzing s"
  with none show "handleFrameCapture (Some oracle) uuid frame s
             = s\<lparr>oracleCalls := oracleCalls s @ [frame]\<rparr>"
    by (intro handleFrameCapture_no_event) auto
next
  assume "\<not> isAnalyzing s"
  then show "handleFrameCapture None uuid frame s
               = s\<lparr>oracleCalls := oracleCalls s @ [frame]\<rparr>"
    by (intro handleFrameCapture_no_event) (simp_all add: analyzeFrame_def)
next
  show "handleFrameCapture_resume (Fulfilled None) uuid s = s\<lparr>isAnalyzing := False\<rparr>"
    by (simp add: resume_no_event)
  show "handleFrameCapture_resume Rejected uuid s = s\<lparr>isAnalyzing := False\<rparr>"
    by (simp add: resume_no_event)
qed

theorem oracle_failure_no_event_witness:
  "failingOracle (cleanBase64 sampleFrame) = OracleError
   \<and> analyzeFrame (Some failingOracle) sampleFrame = Fulfilled None
   \<and> unusableVerdict textOnlyResponse
   \<and> analyzeFrame (Some textOnlyOracle) sampleFrame = Fulfilled None
   \<and> unusableVerdict (responseWith unreasonedViolationCall)
   \<and> analyzeFrame (Some (callOracle unreasonedViolationCall)) sampleFrame
       = Fulfilled (Some unreasonedVerdict)
   \<and> \<not> isAnalyzing initialState
   \<and> events (handleFrameCapture (Some failingOracle) ''u1'' sampleFrame initialState) = []
   \<and> events (handleFrameCapture (Some (callOracle unreasonedViolationCall)) ''u1''
               sampleFrame initialState) = []
   \<and> events (handleFrameCapture None ''u1'' sampleFrame initialState) = []
   \<and> \<not> isAnalyzing (handleFrameCapture (Some textOnlyOracle) ''u1'' sampleFrame initialState)"
proof -
  have u: "unusableVerdict textOnlyResponse"
          "unusableVerdict (responseWith unreasonedViolationCall)"
    by (simp_all add: unusableVerdict_def firstCall_def textOnlyResponse_def responseWith_def
          unreasonedViolationCall_def unreasonedVerdict_def)
  have a: "analyzeFrame (Some (callOracle unreasonedViolationCall)) sampleFrame
             = Fulfilled (Some unreasonedVerdict)"
    by (simp add: analyzeFrame_def callOracle_def responseWith_def unreasonedViolationCall_def)
  have b: "analyzeFrame (Some failingOracle) sampleFrame = Fulfilled None"
          "analyzeFrame (Some textOnlyOracle) sampleFrame = Fulfilled None"
    by (simp_all add: analyzeFrame_def failingOracle_def textOnlyOracle_def
          textOnlyResponse_def)
  have i: "\<not> isAnalyzing initialState" "events initialState = []"
    by (simp_all add: initialState_def)
  have o: "failingOracle (cleanBase64 sampleFrame) = OracleError"
          "textOnlyOracle (cleanBase64 sampleFrame) = OracleResponse textOnlyResponse"
          "callOracle unreasonedViolationCall (cleanBase64 sampleFrame)
             = OracleResponse (responseWith unreasonedViolationCall)"
    by (simp_all add: failingOracle_def textOnlyOracle_def callOracle_def)
  show ?thesis
    using u a b i o
      oracle_failure_no_event [of failingOracle sampleFrame initialState "''u1''"]
      oracle_failure_no_event [of textOnlyOracle sampleFrame initialState "''u1''"]
      oracle_failure_no_event [of "callOracle unreasonedViolationCall" sampleFrame
        initialState "''u1''"]
    by simp
qed

text \<open>
  The claim as it stands fails: a violation call whose arguments lack the message and the
  location matches neither structured shape, yet \<open>analyzeFrame\<close> returns its arguments and
  the handler logs an event.
\<close>

theorem malformed_verdict_logged_counterexample:
  "malformedVerdict (responseWith partialViolationCall)
   \<and> callOracle partialViolationCall (cleanBase64 sampleFrame)
       = OracleResponse (responseWith partialViolationCall)
   \<and> analyzeFrame (Some (callOracle partialViolationCall)) sampleFrame
       = Fulfilled (Some partialVerdict)
   \<and> events (handleFrameCapture (Some (callOracle partialViolationCall)) ''u1'' sampleFrame
               initialState)
       = [\<lparr>ev_id = ''u1'', ev_timestamp = 0, ev_severity = Some High, ev_message = None,
           ev_location = None, ev_reasoning = [''Worker detected.'']\<rparr>]"
proof -
  have m: "malformedVerdict (responseWith partialViolationCall)"
    by (simp add: malformedVerdict_def firstCall_def responseWith_def violationShape_def
          safeStatusShape_def partialViolationCall_def partialVerdict_def)
  have a: "analyzeFrame (Some (callOracle partialViolationCall)) sampleFrame
             = Fulfilled (Some partialVerdict)"
    by (simp add: analyzeFrame_def callOracle_def responseWith_def partialViolationCall_def)
  have r: "reasoning_of ''1. Worker detected.'' = [''Worker detected.'']"
    by (simp add: reasoning_of_def split_numbered_def matchDelim_def trim_def isDigit_def
          isWhiteSpace_def)
  have e: "events (handleFrameCapture (Some (callOracle partialViolationCall)) ''u1''
                     sampleFrame initialState)
           = [\<lparr>ev_id = ''u1'', ev_timestamp = 0, ev_severity = Some High, ev_message = None,
               ev_location = None, ev_reasoning = [''Worker detected.'']\<rparr>]"
    by (simp add: handleFrameCapture_def a handleFrameCapture_submit_def
          handleFrameCapture_resume_def Let_def partialVerdict_def
          triggerAlert_events r initialState_def)
  from m a e show ?thesis
    by (simp add: callOracle_def)
qed

text \<open>
  Claim C10, as amended. When the first function call of the response is
  \<open>report_safe_status\<close> and carries an arguments object, \<open>analyzeFrame\<close> returns a verdict
  of severity \<open>safe\<close> with the message \<open>Routine Check: All Clear\<close>; a missing or empty
  location becomes \<open>Zone 1\<close> and missing or empty reasoning steps become
  \<open>No hazards detected.\<close>, so neither text of the verdict is empty.
\<close>

theorem safe_status_verdict:
  "oracle (cleanBase64 frame) = OracleResponse (Some (candidate # others))
   \<and> parts candidate = Some ps
   \<and> List.map_filter functionCall ps = call # calls
   \<and> name call = ''report_safe_status'' \<and> args call = Some a \<longrightarrow>
     (\<exists>v loc steps. analyzeFrame (Some oracle) frame = Fulfilled (Some v)
        \<and> severity v = Some Safe
        \<and> message v = Some ''Routine Check: All Clear''
        \<and> location v = Some loc \<and> loc = orElse (location a) ''Zone 1'' \<and> loc \<noteq> []
        \<and> reasoning_steps v = Some steps
        \<and> steps = orElse (reasoning_steps a) ''No hazards detected.'' \<and> steps \<noteq> []
        \<and> (location a = None \<longrightarrow> loc = ''Zone 1'')
        \<and> (reasoning_steps a = None \<longrightarrow> steps = ''No hazards detected.''))"
  by (auto simp: analyzeFrame_def orElse_def split: option.splits)

theorem safe_status_verdict_witness:
  "analyzeFrame (Some (callOracle emptyStatusCall)) sampleFrame
     = Fulfilled (Some \<lparr>severity = Some Safe, message = Some ''Routine Check: All Clear'',
                        location = Some ''Zone 1'',
                        reasoning_steps = Some ''No hazards detected.''\<rparr>)
   \<and> analyzeFrame (Some (callOracle fullStatusCall)) sampleFrame
     = Fulfilled (Some \<lparr>severity = Some Safe, message = Some ''Routine Check: All Clear'',
                        location = Some ''Dock 4'',
                        reasoning_steps = Some ''No hazards detected.''\<rparr>)"
  using safe_status_verdict [of "callOracle emptyStatusCall" sampleFrame
          "\<lparr>parts = Some [\<lparr>functionCall = None\<rparr>, \<lparr>functionCall = Some emptyStatusCall\<rparr>]\<rparr>"
          "[]" "[\<lparr>functionCall = None\<rparr>, \<lparr>functionCall = Some emptyStatusCall\<rparr>]"
          emptyStatusCall "[]"
          "\<lparr>severity = None, message = None, location = None, reasoning_steps = Some []\<rparr>"]
        safe_status_verdict [of "callOracle fullStatusCall" sampleFrame
          "\<lparr>parts = Some [\<lparr>functionCall = None\<rparr>, \<lparr>functionCall = Some fullStatusCall\<rparr>]\<rparr>"
          "[]" "[\<lparr>functionCall = None\<rparr>, \<lparr>functionCall = Some fullStatusCall\<rparr>]"
          fullStatusCall "[]"
          "\<lparr>severity = None, message = None, location = Some ''Dock 4'',
            reasoning_steps = None\<rparr>"]
  by (auto simp: callOracle_def responseWith_def emptyStatusCall_def fullStatusCall_def
        orElse_def)

text \<open>
  The claim as it stands fails: for a \<open>report_safe_status\<close> call without an arguments
  object, reading the location throws, the \<open>catch\<close> returns null and no verdict is
  delivered.
\<close>

theorem safe_status_without_args_counterexample:
  "name bareStatusCall = ''report_safe_status''
   \<and> firstCall (responseWith bareStatusCall) = Some bareStatusCall
   \<and> callOracle bareStatusCall (cleanBase64 sampleFrame)
       = OracleResponse (responseWith bareStatusCall)
   \<and> analyzeFrame (Some (callOracle bareStatusCall)) sampleFrame = Fulfilled None"
  by (simp add: analyzeFrame_def callOracle_def responseWith_def firstCall_def
        bareStatusCall_def)

end
